theory Spec2Isabelle
  imports Complex_Main
begin

section \<open>Strings\<close>

text \<open>
  A JavaScript string is modelled by its UTF-8 encoding: a \<open>string\<close> is the list of the
  bytes of a well-formed Unicode text, so an ASCII character is one \<open>char\<close> and any other
  code point is two to four. (A JavaScript string holding a lone surrogate has no UTF-8
  encoding and is outside the model.) Substring search, replacement, concatenation and the
  percent-encoding of \<open>encodeURIComponent\<close> are the same on the bytes as on the text.

  \<open>String.prototype.trim\<close> strips white space and line terminators from both ends. These
  are the code points U+0009 to U+000D, U+0020, U+00A0, U+1680, U+2000 to U+200A, U+2028,
  U+2029, U+202F, U+205F, U+3000 and U+FEFF; \<open>is_white_space\<close> recognises the encoding of
  one of them.
\<close>

fun is_white_space :: "string \<Rightarrow> bool" where
  "is_white_space [c] = (of_char c \<in> {0x09, 0x0A, 0x0B, 0x0C, 0x0D, 0x20 :: nat})"
| "is_white_space [c1, c2] = (of_char c1 = (0xC2 :: nat) \<and> of_char c2 = (0xA0 :: nat))"
| "is_white_space [c1, c2, c3] =
     (let a = (of_char c1 :: nat); b = (of_char c2 :: nat); c = (of_char c3 :: nat)
      in (a = 0xE1 \<and> b = 0x9A \<and> c = 0x80) \<or>
         (a = 0xE2 \<and> b = 0x80 \<and>
            (0x80 \<le> c \<and> c \<le> 0x8A \<or> c = 0xA8 \<or> c = 0xA9 \<or> c = 0xAF)) \<or>
         (a = 0xE2 \<and> b = 0x81 \<and> c = 0x9F) \<or>
         (a = 0xE3 \<and> b = 0x80 \<and> c = 0x80) \<or>
         (a = 0xEF \<and> b = 0xBB \<and> c = 0xBF))"
| "is_white_space s = False"

text \<open>
  The number of bytes of the character at the front of \<open>s\<close> when \<open>P\<close> recognises it, else 0;
  \<open>strip\<close> removes such characters from the front as long as there is one.
\<close>

definition lead_len :: "(string \<Rightarrow> bool) \<Rightarrow> string \<Rightarrow> nat" where
  "lead_len P s =
     (if P (take 1 s) then 1 else if P (take 2 s) then 2 else if P (take 3 s) then 3 else 0)"

function strip :: "(string \<Rightarrow> bool) \<Rightarrow> string \<Rightarrow> string" where
  "strip P s = (if lead_len P s = 0 \<or> s = [] then s else strip P (drop (lead_len P s) s))"
  by pat_completeness auto
termination
  by (relation "measure (\<lambda>(P, s). length s)") auto

declare strip.simps [simp del]

text \<open>The end of the string is stripped on the reversed bytes.\<close>

definition trim :: "string \<Rightarrow> string" where
  "trim s = rev (strip (\<lambda>w. is_white_space (rev w)) (rev (strip is_white_space s)))"

text \<open>
  \<open>String.prototype.toLowerCase\<close> follows the case tables of the Unicode version built into
  the JavaScript engine. They are not part of the repository, so every function of the
  model that lower-cases takes the lower-casing as its first argument, named
  \<open>toLowerCase\<close>, and every theorem holds for every such function. The concrete runs use
  \<open>toLowerCase_ascii\<close>, which is the built-in on ASCII text.
\<close>

definition toLowerCase_ascii :: "string \<Rightarrow> string" where
  "toLowerCase_ascii s =
     map (\<lambda>c. let n = (of_char c :: nat) in if 65 \<le> n \<and> n \<le> 90 then char_of (n + 32) else c) s"

definition startsWith :: "string \<Rightarrow> string \<Rightarrow> bool" where
  "startsWith s p = (take (length p) s = p)"

fun includes_str :: "string \<Rightarrow> string \<Rightarrow> bool" where
  "includes_str [] p = (p = [])"
| "includes_str (c # cs) p = (startsWith (c # cs) p \<or> includes_str cs p)"

text \<open>\<open>s.replace(p, r)\<close> with a string pattern: the first occurrence only.\<close>

fun replace_first :: "string \<Rightarrow> string \<Rightarrow> string \<Rightarrow> string" where
  "replace_first [] p r = (if p = [] then r else [])"
| "replace_first (c # cs) p r =
     (if startsWith (c # cs) p then r @ drop (length p) (c # cs)
      else c # replace_first cs p r)"

definition digit_char :: "nat \<Rightarrow> char" where
  "digit_char d = char_of (48 + d)"

fun show_nat :: "nat \<Rightarrow> string" where
  "show_nat n = (if n < 10 then [digit_char n] else show_nat (n div 10) @ [digit_char (n mod 10)])"

declare show_nat.simps [simp del]

definition show_int :: "int \<Rightarrow> string" where
  "show_int i = (if i < 0 then CHR ''-'' # show_nat (nat (- i)) else show_nat (nat i))"

text \<open>A JavaScript value is falsy when it is \<open>null\<close>/\<open>undefined\<close> or the empty string.\<close>

definition truthy :: "string option \<Rightarrow> bool" where
  "truthy v = (case v of None \<Rightarrow> False | Some s \<Rightarrow> s \<noteq> [])"

section \<open>Data model\<close>

text \<open>
  Numbers: a counter or a movie identifier is an integer-valued JavaScript number, kept as
  the integer it denotes; a limit is a natural number, document identifiers are natural
  numbers, and a point in time (\<open>new Date().toISOString()\<close>) is the reading of a clock, a
  natural number. An optional or nullable member is an \<open>option\<close>: \<open>None\<close> is \<open>null\<close> or
  \<open>undefined\<close>.

  JavaScript numbers are IEEE 754 doubles: a sum is the exact sum rounded to the nearest
  double, ties to the even significand. \<open>double_of_int\<close> is that rounding on integers (of
  magnitude below \<open>2^1024\<close>): the identity below \<open>2^53\<close>, and above it the nearest integer
  with a significand of 53 bits.
\<close>

function bit_length :: "int \<Rightarrow> nat" where
  "bit_length n = (if n \<le> 0 then 0 else Suc (bit_length (n div 2)))"
  by pat_completeness auto
termination
  by (relation "measure nat") auto

declare bit_length.simps [simp del]

definition double_of_int :: "int \<Rightarrow> int" where
  "double_of_int x =
     (if \<bar>x\<bar> < 2 ^ 53 then x
      else
        (let e = bit_length \<bar>x\<bar> - 53; q = \<bar>x\<bar> div 2 ^ e; r = \<bar>x\<bar> mod 2 ^ e;
             h = 2 ^ (e - 1);
             q' = (if h < r \<or> (r = h \<and> odd q) then q + 1 else q)
         in sgn x * (q' * 2 ^ e)))"

text \<open>
  \<open>a + b\<close> in JavaScript, on two integers as the store holds them: each reaches the program
  as the double nearest to it and the sum is rounded again.
\<close>

definition js_add :: "int \<Rightarrow> int \<Rightarrow> int" where
  "js_add a b = double_of_int (double_of_int a + double_of_int b)"

type_synonym timestamp = nat

record movie =
  m_id :: int
  m_title :: string
  m_poster_path :: "string option"
  m_release_date :: "string option"
  m_vote_average :: "rat option"

text \<open>A document of the popularity collection; \<open>dollar_id\<close> is the store's \<open>$id\<close>.\<close>

record doc =
  dollar_id :: nat
  searchTerm :: string
  count :: int
  movie_id :: int
  title :: string
  poster_url :: "string option"
  release_date :: "string option"
  vote_average :: rat
  firstSearched :: timestamp
  lastSearched :: timestamp

text \<open>The payload of \<open>updateDocument\<close> in \<open>updateSearchCount\<close>.\<close>

record update_data =
  u_count :: int
  u_lastSearched :: timestamp
  u_title :: string
  u_poster_url :: "string option"

record js_error =
  err_message :: string
  err_code :: "nat option"

text \<open>What an \<open>await\<close> sees of a promise: it resolves, it rejects, or it never settles.\<close>

datatype 'a promise = Resolved 'a | Rejected js_error | Pending

section \<open>The document store\<close>

text \<open>
  The document store is an external collaborator reached through its SDK. It is modelled as
  the capability the application uses: exact-match and threshold filters, descending order,
  a limit, create and update by identifier. Each request is given a \<open>fault\<close> by the
  environment: the request is served (\<open>NoFault\<close>); it does not reach the store and the
  client gets an error (\<open>Throws\<close>: network, 401, 404, ...) or no answer at all (\<open>Hangs\<close>);
  or the store carries it out but the reply is lost, so that the client again gets an error
  (\<open>ThrowsApplied\<close>) or no answer (\<open>HangsApplied\<close>).
\<close>

datatype fault = NoFault | Throws js_error | Hangs | ThrowsApplied js_error | HangsApplied

datatype query =
    QEqual string string
  | QGreaterThan string int
  | QOrderDesc string
  | QLimit nat

record db =
  documents :: "doc list"
  next_id :: nat

definition string_attr :: "string \<Rightarrow> doc \<Rightarrow> string option" where
  "string_attr a d =
     (if a = ''searchTerm'' then Some (searchTerm d)
      else if a = ''title'' then Some (title d)
      else None)"

definition int_attr :: "string \<Rightarrow> doc \<Rightarrow> int option" where
  "int_attr a d =
     (if a = ''count'' then Some (count d)
      else if a = ''movie_id'' then Some (movie_id d)
      else None)"

fun valid_query :: "query \<Rightarrow> bool" where
  "valid_query (QEqual a v) = (a = ''searchTerm'' \<or> a = ''title'')"
| "valid_query (QGreaterThan a v) = (a = ''count'' \<or> a = ''movie_id'')"
| "valid_query (QOrderDesc a) = (a = ''count'' \<or> a = ''movie_id'')"
| "valid_query (QLimit n) = True"

fun matches :: "doc \<Rightarrow> query \<Rightarrow> bool" where
  "matches d (QEqual a v) = (string_attr a d = Some v)"
| "matches d (QGreaterThan a v) = (case int_attr a d of None \<Rightarrow> False | Some x \<Rightarrow> v < x)"
| "matches d (QOrderDesc a) = True"
| "matches d (QLimit n) = True"

fun limit_of :: "query list \<Rightarrow> nat" where
  "limit_of [] = 25"
| "limit_of (QLimit n # qs) = n"
| "limit_of (q # qs) = limit_of qs"

fun order_of :: "query list \<Rightarrow> string option" where
  "order_of [] = None"
| "order_of (QOrderDesc a # qs) = Some a"
| "order_of (q # qs) = order_of qs"

definition order_desc :: "string option \<Rightarrow> doc list \<Rightarrow> doc list" where
  "order_desc a ds =
     (case a of None \<Rightarrow> ds
      | Some k \<Rightarrow> sort_key (\<lambda>d. - (case int_attr k d of None \<Rightarrow> 0 | Some x \<Rightarrow> x)) ds)"

definition invalid_query_error :: js_error where
  "invalid_query_error = \<lparr>err_message = ''Invalid query'', err_code = Some 400\<rparr>"

definition not_found_error :: js_error where
  "not_found_error =
     \<lparr>err_message = ''Document with the requested ID could not be found.'',
      err_code = Some 404\<rparr>"

definition select_documents :: "db \<Rightarrow> query list \<Rightarrow> doc list" where
  "select_documents s qs =
     take (limit_of qs)
       (order_desc (order_of qs) (filter (\<lambda>d. list_all (matches d) qs) (documents s)))"

definition listDocuments :: "fault \<Rightarrow> db \<Rightarrow> query list \<Rightarrow> doc list promise" where
  "listDocuments f s qs =
     (case f of
        Hangs \<Rightarrow> Pending
      | HangsApplied \<Rightarrow> Pending
      | Throws e \<Rightarrow> Rejected e
      | ThrowsApplied e \<Rightarrow> Rejected e
      | NoFault \<Rightarrow>
          if list_all valid_query qs then Resolved (select_documents s qs)
          else Rejected invalid_query_error)"

definition apply_update :: "update_data \<Rightarrow> doc \<Rightarrow> doc" where
  "apply_update u d =
     d\<lparr>count := u_count u, lastSearched := u_lastSearched u,
       title := u_title u, poster_url := u_poster_url u\<rparr>"

fun update_first :: "nat \<Rightarrow> update_data \<Rightarrow> doc list \<Rightarrow> doc list" where
  "update_first i u [] = []"
| "update_first i u (d # ds) =
     (if dollar_id d = i then apply_update u d # ds else d # update_first i u ds)"

text \<open>What the store does with an update and with a create when it carries them out.\<close>

definition store_update :: "db \<Rightarrow> nat \<Rightarrow> update_data \<Rightarrow> (doc \<times> db) option" where
  "store_update s i u =
     (case find (\<lambda>d. dollar_id d = i) (documents s) of
        None \<Rightarrow> None
      | Some d \<Rightarrow> Some (apply_update u d, s\<lparr>documents := update_first i u (documents s)\<rparr>))"

text \<open>
  \<open>createDocument\<close> is called with \<open>ID.unique()\<close>: the store chooses a fresh identifier,
  which replaces the identifier slot of the payload.
\<close>

definition store_create :: "db \<Rightarrow> doc \<Rightarrow> doc \<times> db" where
  "store_create s data =
     (let d = data\<lparr>dollar_id := next_id s\<rparr>
      in (d, \<lparr>documents = documents s @ [d], next_id = Suc (next_id s)\<rparr>))"

definition updateDocument :: "fault \<Rightarrow> db \<Rightarrow> nat \<Rightarrow> update_data \<Rightarrow> doc promise \<times> db" where
  "updateDocument f s i u =
     (case f of
        Hangs \<Rightarrow> (Pending, s)
      | Throws e \<Rightarrow> (Rejected e, s)
      | NoFault \<Rightarrow>
          (case store_update s i u of
             None \<Rightarrow> (Rejected not_found_error, s)
           | Some (d, s') \<Rightarrow> (Resolved d, s'))
      | ThrowsApplied e \<Rightarrow>
          (case store_update s i u of
             None \<Rightarrow> (Rejected e, s)
           | Some (d, s') \<Rightarrow> (Rejected e, s'))
      | HangsApplied \<Rightarrow>
          (case store_update s i u of
             None \<Rightarrow> (Pending, s)
           | Some (d, s') \<Rightarrow> (Pending, s')))"

definition createDocument :: "fault \<Rightarrow> db \<Rightarrow> doc \<Rightarrow> doc promise \<times> db" where
  "createDocument f s data =
     (case f of
        Hangs \<Rightarrow> (Pending, s)
      | Throws e \<Rightarrow> (Rejected e, s)
      | NoFault \<Rightarrow> (Resolved (fst (store_create s data)), snd (store_create s data))
      | ThrowsApplied e \<Rightarrow> (Rejected e, snd (store_create s data))
      | HangsApplied \<Rightarrow> (Pending, snd (store_create s data)))"

section \<open>Observable effects\<close>

text \<open>
  Everything a run does besides returning: the state setters of the view, the HTTP request
  to the movie provider, the requests to the document store and the console output, in
  program order.
\<close>

datatype event =
    SetErrorMessage string
  | SetMovieList "movie list"
  | SetIsLoading bool
  | SetIsRetrying bool
  | SetInitialLoad bool
  | HttpGet string
  | ListDocuments "query list"
  | UpdateDocument nat update_data
  | CreateDocument doc
  | ConsoleLog string
  | ConsoleWarn string
  | ConsoleError string

fun is_store_request :: "event \<Rightarrow> bool" where
  "is_store_request (ListDocuments qs) = True"
| "is_store_request (UpdateDocument i u) = True"
| "is_store_request (CreateDocument d) = True"
| "is_store_request e = False"

fun is_console :: "event \<Rightarrow> bool" where
  "is_console (ConsoleLog m) = True"
| "is_console (ConsoleWarn m) = True"
| "is_console (ConsoleError m) = True"
| "is_console e = False"

fun is_http_request :: "event \<Rightarrow> bool" where
  "is_http_request (HttpGet u) = True"
| "is_http_request e = False"

definition dquote :: string where
  "dquote = [CHR 0x22]"

section \<open>The popularity ledger client (appwrite.js)\<close>





text \<open>
  Loading the module runs \<open>validateEnvVars()\<close> first and only then builds the client and the
  \<open>database\<close> handle that every ledger operation goes through. The result is the handle, or
  the error thrown at import time, together with the store requests made while loading.
\<close>

record client =
  endpoint :: string
  project :: "string option"


text \<open>
  What the environment decides during one call of \<open>updateSearchCount\<close>: the fate of the
  lookup request, the fate of the write request, and the readings of the clock
  (\<open>new Date()\<close>), in the order the code takes them.
\<close>

record ledger_env =
  list_fault :: fault
  write_fault :: fault
  date1 :: timestamp
  date2 :: timestamp

definition image_base :: string where
  "image_base = ''https://image.tmdb.org/t/p/w500''"

definition poster_url_of :: "movie \<Rightarrow> string option" where
  "poster_url_of mv =
     (case m_poster_path mv of
        None \<Rightarrow> None
      | Some p \<Rightarrow> if p = [] then None else Some (image_base @ p))"

text \<open>The payloads of the two writes.\<close>

definition update_payload :: "ledger_env \<Rightarrow> movie \<Rightarrow> doc \<Rightarrow> update_data" where
  "update_payload env mv d =
     \<lparr>u_count = js_add (count d) 1, u_lastSearched = date1 env,
      u_title = m_title mv, u_poster_url = poster_url_of mv\<rparr>"

definition create_payload :: "ledger_env \<Rightarrow> string \<Rightarrow> movie \<Rightarrow> doc" where
  "create_payload env sanitizedTerm mv =
     \<lparr>dollar_id = 0, searchTerm = sanitizedTerm, count = 1, movie_id = m_id mv,
      title = m_title mv, poster_url = poster_url_of mv,
      release_date = (if truthy (m_release_date mv) then m_release_date mv else None),
      vote_average = (case m_vote_average mv of None \<Rightarrow> 0 | Some v \<Rightarrow> v),
      firstSearched = date1 env, lastSearched = date2 env\<rparr>"

definition updateSearchCount_update ::
  "ledger_env \<Rightarrow> db \<Rightarrow> string \<Rightarrow> movie \<Rightarrow> doc \<Rightarrow> doc promise \<times> event list \<times> db" where
  "updateSearchCount_update env s sanitizedTerm mv d =
     (let u = update_payload env mv d
      in case updateDocument (write_fault env) s (dollar_id d) u of
           (Resolved updatedDoc, s') \<Rightarrow>
             (Resolved updatedDoc,
              [UpdateDocument (dollar_id d) u,
               ConsoleLog (''Updated search count for '' @ dquote @ sanitizedTerm @ dquote @
                           '': '' @ show_int (count updatedDoc))],
              s')
         | (Rejected e, s') \<Rightarrow> (Rejected e, [UpdateDocument (dollar_id d) u], s')
         | (Pending, s') \<Rightarrow> (Pending, [UpdateDocument (dollar_id d) u], s'))"

definition updateSearchCount_create ::
  "ledger_env \<Rightarrow> db \<Rightarrow> string \<Rightarrow> movie \<Rightarrow> doc promise \<times> event list \<times> db" where
  "updateSearchCount_create env s sanitizedTerm mv =
     (let data = create_payload env sanitizedTerm mv
      in case createDocument (write_fault env) s data of
           (Resolved newDoc, s') \<Rightarrow>
             (Resolved newDoc,
              [CreateDocument data,
               ConsoleLog (''Created new search record for '' @ dquote @ sanitizedTerm @ dquote)],
              s')
         | (Rejected e, s') \<Rightarrow> (Rejected e, [CreateDocument data], s')
         | (Pending, s') \<Rightarrow> (Pending, [CreateDocument data], s'))"

text \<open>
  The body of the \<open>try\<close> block of \<open>updateSearchCount\<close> has two awaits: the lookup, and the
  write that its result decides. They are two requests; what the store does between them
  is not under the control of the call.
\<close>

definition lookup_queries :: "string \<Rightarrow> query list" where
  "lookup_queries sanitizedTerm = [QEqual ''searchTerm'' sanitizedTerm, QLimit 1]"

definition updateSearchCount_write ::
  "ledger_env \<Rightarrow> db \<Rightarrow> string \<Rightarrow> movie \<Rightarrow> doc list \<Rightarrow> doc promise \<times> event list \<times> db" where
  "updateSearchCount_write env s sanitizedTerm mv ds =
     (if length ds > 0
      then updateSearchCount_update env s sanitizedTerm mv (hd ds)
      else updateSearchCount_create env s sanitizedTerm mv)"

definition updateSearchCount_try ::
  "ledger_env \<Rightarrow> db \<Rightarrow> string \<Rightarrow> movie \<Rightarrow> doc promise \<times> event list \<times> db" where
  "updateSearchCount_try env s sanitizedTerm mv =
     (let qs = lookup_queries sanitizedTerm
      in case listDocuments (list_fault env) s qs of
           Pending \<Rightarrow> (Pending, [ListDocuments qs], s)
         | Rejected e \<Rightarrow> (Rejected e, [ListDocuments qs], s)
         | Resolved ds \<Rightarrow>
             (case updateSearchCount_write env s sanitizedTerm mv ds of
                (r, evs, s') \<Rightarrow> (r, ListDocuments qs # evs, s')))"

text \<open>The \<open>catch\<close> block shared by the ledger operations: console output only.\<close>

definition appwrite_catch :: "string \<Rightarrow> js_error \<Rightarrow> event list" where
  "appwrite_catch what e =
     ConsoleError (what @ '' '' @ err_message e) #
     (if err_code e = Some 401
      then [ConsoleError ''Appwrite authentication failed. Check your project ID and permissions.'']
      else if err_code e = Some 404
      then [ConsoleError ''Appwrite database or collection not found. Check your configuration.'']
      else [])"

text \<open>
  \<open>updateSearchCount(searchTerm, movie)\<close>. An absent argument (\<open>null\<close>/\<open>undefined\<close>) is
  \<open>None\<close>. The result is what the returned promise does: \<open>Resolved None\<close> is the value
  \<open>null\<close>, \<open>Rejected\<close> would be an exception leaving the function.
\<close>

definition updateSearchCount ::
  "(string \<Rightarrow> string) \<Rightarrow> ledger_env \<Rightarrow> db \<Rightarrow> string option \<Rightarrow> movie option \<Rightarrow>
     doc option promise \<times> event list \<times> db" where
  "updateSearchCount toLowerCase env s searchTerm_arg movie_arg =
     (case (searchTerm_arg, movie_arg) of
        (Some term, Some mv) \<Rightarrow>
          if term = []
          then (Resolved None, [ConsoleWarn ''updateSearchCount: Missing required parameters''], s)
          else
            (let sanitizedTerm = toLowerCase (trim term)
             in if sanitizedTerm = [] then (Resolved None, [], s)
                else
                  (case updateSearchCount_try env s sanitizedTerm mv of
                     (Resolved d, evs, s') \<Rightarrow> (Resolved (Some d), evs, s')
                   | (Rejected e, evs, s') \<Rightarrow>
                       (Resolved None, evs @ appwrite_catch ''Error updating search count:'' e, s')
                   | (Pending, evs, s') \<Rightarrow> (Pending, evs, s')))
      | _ \<Rightarrow> (Resolved None, [ConsoleWarn ''updateSearchCount: Missing required parameters''], s))"

text \<open>The record returned for each document by \<open>getTrendingMovies\<close>.\<close>

record trending =
  t_id :: nat
  t_searchTerm :: string
  t_title :: string
  t_movie_id :: int
  t_poster_path :: "string option"
  t_poster_url :: "string option"
  t_count :: int
  t_vote_average :: rat
  t_release_date :: "string option"
  t_lastSearched :: timestamp

definition to_trending :: "doc \<Rightarrow> trending" where
  "to_trending d =
     \<lparr>t_id = dollar_id d, t_searchTerm = searchTerm d, t_title = title d,
      t_movie_id = movie_id d,
      t_poster_path = (case poster_url d of
                         None \<Rightarrow> None
                       | Some u \<Rightarrow> if u = [] then None else Some (replace_first u image_base [])),
      t_poster_url = poster_url d, t_count = count d, t_vote_average = vote_average d,
      t_release_date = release_date d, t_lastSearched = lastSearched d\<rparr>"

definition trending_queries :: "nat \<Rightarrow> query list" where
  "trending_queries limit =
     [QLimit (min limit 100), QOrderDesc ''count'', QGreaterThan ''count'' 0]"

text \<open>
  \<open>getTrendingMovies(limit = 10)\<close>: an omitted argument is \<open>None\<close>. The function only
  reads, so the store is not returned.
\<close>

definition getTrendingMovies ::
  "fault \<Rightarrow> db \<Rightarrow> nat option \<Rightarrow> trending list promise \<times> event list" where
  "getTrendingMovies f s limit_arg =
     (let limit = (case limit_arg of None \<Rightarrow> 10 | Some l \<Rightarrow> l);
          qs = trending_queries limit
      in case listDocuments f s qs of
           Resolved ds \<Rightarrow>
             (let trendingMovies = map to_trending ds
              in (Resolved trendingMovies,
                  [ListDocuments qs,
                   ConsoleLog (''Retrieved '' @ show_nat (length trendingMovies) @
                               '' trending movies'')]))
         | Rejected e \<Rightarrow>
             (Resolved [], ListDocuments qs # appwrite_catch ''Error fetching trending movies:'' e)
         | Pending \<Rightarrow> (Pending, [ListDocuments qs]))"

section \<open>The fetch pipeline (App)\<close>

record app_state =
  movieList :: "movie list"
  errorMessage :: string
  isLoading :: bool
  isRetrying :: bool
  initialLoad :: bool

definition initial_state :: app_state where
  "initial_state =
     \<lparr>movieList = [], errorMessage = [], isLoading = False, isRetrying = False,
      initialLoad = True\<rparr>"

fun apply_event :: "app_state \<Rightarrow> event \<Rightarrow> app_state" where
  "apply_event st (SetErrorMessage m) = st\<lparr>errorMessage := m\<rparr>"
| "apply_event st (SetMovieList ms) = st\<lparr>movieList := ms\<rparr>"
| "apply_event st (SetIsLoading b) = st\<lparr>isLoading := b\<rparr>"
| "apply_event st (SetIsRetrying b) = st\<lparr>isRetrying := b\<rparr>"
| "apply_event st (SetInitialLoad b) = st\<lparr>initialLoad := b\<rparr>"
| "apply_event st e = st"

definition run_events :: "app_state \<Rightarrow> event list \<Rightarrow> app_state" where
  "run_events st evs = foldl apply_event st evs"

text \<open>The busy state shown to the user: \<open>isLoading || isRetrying\<close>.\<close>

definition busy :: "app_state \<Rightarrow> bool" where
  "busy st = (isLoading st \<or> isRetrying st)"

text \<open>
  A provider response: the status line and what \<open>response.json()\<close> does. The parsed body
  is an object; its \<open>results\<close> member is a list of movies or is missing (\<open>None\<close>).
\<close>

record response =
  status :: nat
  statusText :: string
  json :: "movie list option promise"

definition ok :: "response \<Rightarrow> bool" where
  "ok r = (200 \<le> status r \<and> status r \<le> 299)"

record pipeline_env =
  fetch_result :: "response promise"
  ledger :: ledger_env

text \<open>
  \<open>encodeURIComponent\<close> keeps the unreserved characters, which are ASCII, and writes every
  other code point as \<open>%XX\<close> for each byte of its UTF-8 encoding: on the bytes of the string,
  one \<open>%XX\<close> for each byte that is not an unreserved character.
\<close>

definition unreserved :: "char \<Rightarrow> bool" where
  "unreserved c =
     (let n = (of_char c :: nat)
      in (65 \<le> n \<and> n \<le> 90) \<or> (97 \<le> n \<and> n \<le> 122) \<or> (48 \<le> n \<and> n \<le> 57) \<or>
         n \<in> {45, 95, 46, 33, 126, 42, 39, 40, 41})"

definition hex_digit :: "nat \<Rightarrow> char" where
  "hex_digit d = (if d < 10 then char_of (48 + d) else char_of (55 + d))"

definition encode_char :: "char \<Rightarrow> string" where
  "encode_char c =
     (if unreserved c then [c]
      else [CHR ''%'', hex_digit (of_char c div 16), hex_digit (of_char c mod 16)])"

definition encodeURIComponent :: "string \<Rightarrow> string" where
  "encodeURIComponent s = concat (map encode_char s)"

definition API_BASE_URL :: string where
  "API_BASE_URL = ''https://api.themoviedb.org/3''"

definition search_endpoint :: "string \<Rightarrow> string" where
  "search_endpoint query =
     API_BASE_URL @ ''/search/movie?query='' @ encodeURIComponent query @
     ''&include_adult=false&language=en-US&page=1''"

definition discover_endpoint :: string where
  "discover_endpoint =
     API_BASE_URL @
     ''/discover/movie?include_adult=false&include_video=false&language=en-US&page=1&sort_by=popularity.desc''"

definition config_error_message :: string where
  "config_error_message =
     ''TMDB API key is not configured. Please check your environment variables.''"

definition no_results_message :: "string \<Rightarrow> string" where
  "no_results_message query =
     (if query \<noteq> []
      then ''No movies found for '' @ dquote @ query @ dquote @ ''. Try different keywords.''
      else ''No movies available at the moment.'')"

definition getErrorType :: "(string \<Rightarrow> string) \<Rightarrow> string \<Rightarrow> string" where
  "getErrorType toLowerCase msg =
     (let message = toLowerCase msg
      in if includes_str message ''network'' \<or> includes_str message ''fetch'' then ''network''
         else if includes_str message ''404'' \<or> includes_str message ''not found'' then ''search''
         else if includes_str message ''500'' \<or> includes_str message ''server'' then ''server''
         else ''general'')"

definition user_message :: "js_error \<Rightarrow> string" where
  "user_message e =
     (if includes_str (err_message e) ''401''
      then ''Invalid API credentials. Please check your TMDB API key.''
      else if includes_str (err_message e) ''429''
      then ''Too many requests. Please wait a moment and try again.''
      else if includes_str (err_message e) ''Failed to fetch''
      then ''Network error. Please check your connection and try again.''
      else ''Failed to load movies. Please try again later.'')"

text \<open>How a block of the \<open>async\<close> function ends: normally, by a throw, or suspended for ever
  at an \<open>await\<close> whose promise never settles.\<close>

datatype outcome = Completed | Threw js_error | Suspended

text \<open>
  Lines 106-114: the ledger update, awaited inside its own \<open>try\<close>/\<open>catch\<close>.
\<close>

definition record_search ::
  "(string \<Rightarrow> string) \<Rightarrow> ledger_env \<Rightarrow> db \<Rightarrow> string \<Rightarrow> movie list \<Rightarrow>
     outcome \<times> event list \<times> db" where
  "record_search toLowerCase env s query rs =
     (if query \<noteq> [] \<and> length rs > 0
      then (case updateSearchCount toLowerCase env s (Some query) (Some (hd rs)) of
              (Resolved r, evs, s') \<Rightarrow> (Completed, evs, s')
            | (Rejected e, evs, s') \<Rightarrow>
                (Completed,
                 evs @ [ConsoleWarn (''Failed to update search count: '' @ err_message e)], s')
            | (Pending, evs, s') \<Rightarrow> (Suspended, evs, s'))
      else (Completed, [], s))"

definition shown_movies :: "movie list \<Rightarrow> movie list" where
  "shown_movies rs =
     (let moviesWithPosters = filter (\<lambda>m. truthy (m_poster_path m)) rs
      in if length moviesWithPosters > 0 then moviesWithPosters else rs)"

text \<open>The body of the \<open>try\<close> block of \<open>fetchMovies\<close>.\<close>

definition fetchMovies_try ::
  "(string \<Rightarrow> string) \<Rightarrow> pipeline_env \<Rightarrow> db \<Rightarrow> string \<Rightarrow> outcome \<times> event list \<times> db" where
  "fetchMovies_try toLowerCase env s query =
     (let endpoint = (if query \<noteq> [] then search_endpoint query else discover_endpoint);
          ev0 = [ConsoleLog (''Fetching movies: '' @ endpoint), HttpGet endpoint]
      in case fetch_result env of
           Pending \<Rightarrow> (Suspended, ev0, s)
         | Rejected e \<Rightarrow> (Threw e, ev0, s)
         | Resolved resp \<Rightarrow>
             if \<not> ok resp
             then (Threw \<lparr>err_message = ''HTTP '' @ show_nat (status resp) @ '': '' @
                                          statusText resp,
                          err_code = None\<rparr>, ev0, s)
             else
               (case json resp of
                  Pending \<Rightarrow> (Suspended, ev0, s)
                | Rejected e \<Rightarrow> (Threw e, ev0, s)
                | Resolved results \<Rightarrow>
                    (case results of
                       None \<Rightarrow>
                         (Completed,
                          ev0 @ [SetErrorMessage (no_results_message query), SetMovieList []], s)
                     | Some rs \<Rightarrow>
                         if length rs = 0
                         then (Completed,
                               ev0 @ [SetErrorMessage (no_results_message query),
                                      SetMovieList []], s)
                         else
                           (case record_search toLowerCase (ledger env) s query rs of
                              (Completed, evs, s') \<Rightarrow>
                                (Completed,
                                 ev0 @ [SetMovieList (shown_movies rs)] @ evs @
                                 [ConsoleLog (''Successfully fetched '' @ show_nat (length rs) @
                                              '' movies'')], s')
                            | (out, evs, s') \<Rightarrow>
                                (out, ev0 @ [SetMovieList (shown_movies rs)] @ evs, s')))))"

definition fetchMovies_catch :: "js_error \<Rightarrow> event list" where
  "fetchMovies_catch e =
     [ConsoleError (''Error fetching movies: '' @ err_message e),
      SetErrorMessage (user_message e), SetMovieList []]"

definition fetchMovies_finally :: "app_state \<Rightarrow> event list" where
  "fetchMovies_finally st =
     [SetIsLoading False, SetIsRetrying False] @
     (if initialLoad st then [SetInitialLoad False] else [])"

definition fetchMovies_start :: "bool \<Rightarrow> event list" where
  "fetchMovies_start isRetry =
     [if isRetry then SetIsRetrying True else SetIsLoading True, SetErrorMessage []]"

text \<open>
  \<open>fetchMovies(query, isRetry)\<close>, called in the view state \<open>st\<close> (whose \<open>initialLoad\<close> the
  callback closes over) with the provider credential \<open>API_KEY\<close>. It returns the effects of
  the run in program order and the document store it leaves.
\<close>

definition fetchMovies ::
  "(string \<Rightarrow> string) \<Rightarrow> string option \<Rightarrow> pipeline_env \<Rightarrow> app_state \<Rightarrow> db \<Rightarrow> string \<Rightarrow> bool \<Rightarrow>
     event list \<times> db" where
  "fetchMovies toLowerCase API_KEY env st s query isRetry =
     (if query = [] \<and> \<not> initialLoad st then ([], s)
      else if \<not> truthy API_KEY then ([SetErrorMessage config_error_message], s)
      else
        (case fetchMovies_try toLowerCase env s query of
           (Completed, evs, s') \<Rightarrow>
             (fetchMovies_start isRetry @ evs @ fetchMovies_finally st, s')
         | (Threw e, evs, s') \<Rightarrow>
             (fetchMovies_start isRetry @ evs @ fetchMovies_catch e @ fetchMovies_finally st, s')
         | (Suspended, evs, s') \<Rightarrow> (fetchMovies_start isRetry @ evs, s')))"




section \<open>Sequences of ledger calls\<close>

record record_call =
  rc_env :: ledger_env
  rc_term :: string
  rc_movie :: movie

text \<open>Calls made one after another: each one ends before the next begins.\<close>

fun run_records :: "(string \<Rightarrow> string) \<Rightarrow> db \<Rightarrow> record_call list \<Rightarrow> db" where
  "run_records toLowerCase s [] = s"
| "run_records toLowerCase s (c # cs) =
     run_records toLowerCase
       (snd (snd (updateSearchCount toLowerCase (rc_env c) s (Some (rc_term c))
                    (Some (rc_movie c))))) cs"

text \<open>
  Calls that overlap: the call \<open>c\<close> makes its lookup, then the calls \<open>cs\<close> run, and only
  then \<open>c\<close> makes its write, with what its lookup had returned.
\<close>

definition run_overlapped ::
  "(string \<Rightarrow> string) \<Rightarrow> db \<Rightarrow> record_call \<Rightarrow> record_call list \<Rightarrow> db" where
  "run_overlapped toLowerCase s c cs =
     (let sanitizedTerm = toLowerCase (trim (rc_term c))
      in if rc_term c = [] \<or> sanitizedTerm = [] then run_records toLowerCase s cs
         else
           (case listDocuments (list_fault (rc_env c)) s (lookup_queries sanitizedTerm) of
              Resolved ds \<Rightarrow>
                snd (snd (updateSearchCount_write (rc_env c) (run_records toLowerCase s cs)
                            sanitizedTerm (rc_movie c) ds))
            | Rejected e \<Rightarrow> run_records toLowerCase s cs
            | Pending \<Rightarrow> run_records toLowerCase s cs))"

text \<open>The counter stored for a term: that of the record a lookup finds, 0 without a record.\<close>

definition counter :: "db \<Rightarrow> string \<Rightarrow> int" where
  "counter s t =
     (case find (\<lambda>d. searchTerm d = t) (documents s) of None \<Rightarrow> 0 | Some d \<Rightarrow> count d)"

text \<open>
  The write of a call is applied when its lookup is served and the store carries its write
  out, whether or not the reply to the write arrives.
\<close>

fun carried_out :: "fault \<Rightarrow> bool" where
  "carried_out NoFault = True"
| "carried_out (ThrowsApplied e) = True"
| "carried_out HangsApplied = True"
| "carried_out (Throws e) = False"
| "carried_out Hangs = False"

definition applied :: "record_call \<Rightarrow> bool" where
  "applied c = (list_fault (rc_env c) = NoFault \<and> carried_out (write_fault (rc_env c)))"

text \<open>Identifiers in the store are unique and below the next fresh one.\<close>

definition wf_db :: "db \<Rightarrow> bool" where
  "wf_db s =
     (distinct (map dollar_id (documents s)) \<and>
      list_all (\<lambda>d. dollar_id d < next_id s) (documents s))"

section \<open>Example inputs\<close>

definition example_movie :: movie where
  "example_movie =
     \<lparr>m_id = 268, m_title = ''Batman'', m_poster_path = Some ''/b.jpg'',
      m_release_date = Some ''1989-06-21'', m_vote_average = Some 7\<rparr>"

definition blank_poster_movie :: movie where
  "blank_poster_movie =
     \<lparr>m_id = 7, m_title = ''Untitled'', m_poster_path = Some [],
      m_release_date = None, m_vote_average = None\<rparr>"

definition no_faults :: ledger_env where
  "no_faults = \<lparr>list_fault = NoFault, write_fault = NoFault, date1 = 1000, date2 = 1001\<rparr>"

definition empty_db :: db where
  "empty_db = \<lparr>documents = [], next_id = 0\<rparr>"

definition numbered_doc :: "nat \<Rightarrow> doc" where
  "numbered_doc i =
     \<lparr>dollar_id = i, searchTerm = show_nat i, count = 1, movie_id = int i, title = ''Movie'',
      poster_url = None, release_date = None, vote_average = 0, firstSearched = 0,
      lastSearched = 0\<rparr>"

text \<open>A ledger with 101 records, each searched once.\<close>

definition crowded_db :: db where
  "crowded_db = \<lparr>documents = map numbered_doc [0..<101], next_id = 101\<rparr>"

definition network_error :: js_error where
  "network_error = \<lparr>err_message = ''Failed to fetch'', err_code = None\<rparr>"

definition ledger_down :: ledger_env where
  "ledger_down = \<lparr>list_fault = Throws network_error, write_fault = NoFault,
                   date1 = 1000, date2 = 1001\<rparr>"


definition ok_response :: "movie list option \<Rightarrow> response" where
  "ok_response results = \<lparr>status = 200, statusText = ''OK'', json = Resolved results\<rparr>"

definition provider_answers :: "movie list option \<Rightarrow> ledger_env \<Rightarrow> pipeline_env" where
  "provider_answers results lenv =
     \<lparr>fetch_result = Resolved (ok_response results), ledger = lenv\<rparr>"

definition no_poster_movie :: movie where
  "no_poster_movie =
     \<lparr>m_id = 9, m_title = ''Lost Reel'', m_poster_path = None,
      m_release_date = None, m_vote_average = None\<rparr>"


text \<open>A ledger whose only record is that of \<open>batman\<close>, with a given counter.\<close>

definition batman_db :: "int \<Rightarrow> db" where
  "batman_db c =
     \<lparr>documents =
        [\<lparr>dollar_id = 0, searchTerm = ''batman'', count = c, movie_id = 268,
          title = ''Batman (1966)'', poster_url = None, release_date = Some ''1966-07-30'',
          vote_average = 6, firstSearched = 10, lastSearched = 20\<rparr>],
      next_id = 1\<rparr>"

definition batman_call :: record_call where
  "batman_call = \<lparr>rc_env = no_faults, rc_term = ''Batman'', rc_movie = example_movie\<rparr>"

definition reply_lost :: ledger_env where
  "reply_lost = \<lparr>list_fault = NoFault, write_fault = ThrowsApplied network_error,
                  date1 = 1000, date2 = 1001\<rparr>"

text \<open>A no-break space, a space and a line separator.\<close>

definition blank_term :: string where
  "blank_term = [CHR 0xC2, CHR 0xA0, CHR 0x20, CHR 0xE2, CHR 0x80, CHR 0xA8]"


definition example_calls :: "record_call list" where
  "example_calls =
     [\<lparr>rc_env = no_faults, rc_term = ''Batman'', rc_movie = example_movie\<rparr>,
      \<lparr>rc_env = ledger_down, rc_term = '' BATMAN '', rc_movie = example_movie\<rparr>,
      \<lparr>rc_env = reply_lost, rc_term = ''batman '', rc_movie = blank_poster_movie\<rparr>]"

section \<open>Verification: the ledger client\<close>

lemma strip_Nil: "strip P [] = []"
  by (subst strip.simps) simp

lemma trim_Nil: "trim [] = []"
  by (simp add: trim_def strip_Nil)

lemma lead_len_white_space:
  "is_white_space w \<Longrightarrow> lead_len is_white_space (w @ r) = length w \<and> w \<noteq> []"
  by (cases w rule: is_white_space.cases) (auto simp: lead_len_def Let_def)

lemma strip_white_space:
  "list_all is_white_space ws \<Longrightarrow> strip is_white_space (concat ws) = []"
proof (induction ws)
  case Nil
  then show ?case by (simp add: strip_Nil)
next
  case (Cons w ws)
  then have w: "is_white_space w" and rest: "strip is_white_space (concat ws) = []" by auto
  from lead_len_white_space [OF w, of "concat ws"]
  show ?case
    by (subst strip.simps) (simp add: rest)
qed

lemma trim_blank: "list_all is_white_space ws \<Longrightarrow> trim (concat ws) = []"
  by (simp add: trim_def strip_white_space strip_Nil)

lemma double_exact: "\<bar>x\<bar> < 9007199254740992 \<Longrightarrow> double_of_int x = x"
  by (simp add: double_of_int_def)

lemma double_2_53: "double_of_int 9007199254740992 = 9007199254740992"
  by code_simp

lemma js_add_exact:
  assumes "- 9007199254740992 < c" and "c < 9007199254740992"
  shows "js_add c 1 = c + 1"
proof -
  from assms have c: "double_of_int c = c" by (intro double_exact) simp
  have one: "double_of_int 1 = 1" by (intro double_exact) simp
  show ?thesis
  proof (cases "c = 9007199254740991")
    case True
    then show ?thesis by (simp add: js_add_def one double_2_53 double_exact)
  next
    case False
    with assms have "\<bar>c + 1\<bar> < 9007199254740992" by simp
    then have "double_of_int (c + 1) = c + 1" by (rule double_exact)
    then show ?thesis by (simp add: js_add_def c one)
  qed
qed

lemma lookup_resolved:
  "listDocuments NoFault s (lookup_queries t) =
     Resolved (take 1 (filter (\<lambda>d. searchTerm d = t) (documents s)))"
  by (simp add: listDocuments_def lookup_queries_def select_documents_def order_desc_def
        string_attr_def)

lemma find_filter_conv:
  "find P xs = (case filter P xs of [] \<Rightarrow> None | x # ys \<Rightarrow> Some x)"
  by (induction xs) auto

lemma find_by_id:
  "distinct (map dollar_id ds) \<Longrightarrow> d \<in> set ds \<Longrightarrow> find (\<lambda>x. dollar_id x = dollar_id d) ds = Some d"
  by (induction ds) (auto simp: rev_image_eqI)

lemma ids_update_first: "map dollar_id (update_first i u ds) = map dollar_id ds"
  by (induction ds) (auto simp: apply_update_def)

lemma length_update_first: "length (update_first i u ds) = length ds"
  by (induction ds) auto

lemma find_term_update_first:
  "distinct (map dollar_id ds) \<Longrightarrow> find (\<lambda>x. searchTerm x = t) ds = Some d \<Longrightarrow>
   find (\<lambda>x. searchTerm x = t) (update_first (dollar_id d) u ds) = Some (apply_update u d)"
proof (induction ds)
  case Nil
  then show ?case by simp
next
  case (Cons x xs)
  show ?case
  proof (cases "searchTerm x = t")
    case True
    with Cons.prems show ?thesis by (simp add: apply_update_def)
  next
    case False
    with Cons.prems have f: "find (\<lambda>x. searchTerm x = t) xs = Some d" by simp
    then have "d \<in> set xs" by (auto simp: find_Some_iff)
    with Cons.prems have "dollar_id x \<noteq> dollar_id d" by auto
    with False f Cons show ?thesis by simp
  qed
qed

lemma find_other_update_first:
  "distinct (map dollar_id ds) \<Longrightarrow> d \<in> set ds \<Longrightarrow> searchTerm d \<noteq> t' \<Longrightarrow>
   find (\<lambda>x. searchTerm x = t') (update_first (dollar_id d) u ds) =
   find (\<lambda>x. searchTerm x = t') ds"
proof (induction ds)
  case Nil
  then show ?case by simp
next
  case (Cons x xs)
  show ?case
  proof (cases "dollar_id x = dollar_id d")
    case True
    with Cons.prems have "x = d" by (auto simp: rev_image_eqI)
    with Cons.prems show ?thesis by (simp add: apply_update_def)
  next
    case False
    with Cons show ?thesis by auto
  qed
qed

lemma find_append_conv:
  "find P (xs @ ys) = (case find P xs of None \<Rightarrow> find P ys | Some x \<Rightarrow> Some x)"
  by (induction xs) auto

lemma store_update_found:
  "distinct (map dollar_id (documents s)) \<Longrightarrow> d \<in> set (documents s) \<Longrightarrow>
   store_update s (dollar_id d) u =
     Some (apply_update u d, s\<lparr>documents := update_first (dollar_id d) u (documents s)\<rparr>)"
  by (simp add: store_update_def find_by_id)

text \<open>The write of a call, by what its lookup returned and by the fault of the write.\<close>

lemma write_found:
  assumes "distinct (map dollar_id (documents s))" and "d \<in> set (documents s)"
  shows "fst (updateSearchCount_write env s t mv (d # ds)) =
           (case write_fault env of
              NoFault \<Rightarrow> Resolved (apply_update (update_payload env mv d) d)
            | Throws e \<Rightarrow> Rejected e
            | ThrowsApplied e \<Rightarrow> Rejected e
            | Hangs \<Rightarrow> Pending
            | HangsApplied \<Rightarrow> Pending)"
    and "snd (snd (updateSearchCount_write env s t mv (d # ds))) =
           (if carried_out (write_fault env)
            then s\<lparr>documents := update_first (dollar_id d) (update_payload env mv d) (documents s)\<rparr>
            else s)"
  by (simp_all add: updateSearchCount_write_def updateSearchCount_update_def Let_def
        updateDocument_def store_update_found [OF assms] split: fault.splits)

lemma write_not_found:
  shows "fst (updateSearchCount_write env s t mv []) =
           (case write_fault env of
              NoFault \<Rightarrow> Resolved ((create_payload env t mv)\<lparr>dollar_id := next_id s\<rparr>)
            | Throws e \<Rightarrow> Rejected e
            | ThrowsApplied e \<Rightarrow> Rejected e
            | Hangs \<Rightarrow> Pending
            | HangsApplied \<Rightarrow> Pending)"
    and "snd (snd (updateSearchCount_write env s t mv [])) =
           (if carried_out (write_fault env)
            then \<lparr>documents = documents s @ [(create_payload env t mv)\<lparr>dollar_id := next_id s\<rparr>],
                  next_id = Suc (next_id s)\<rparr>
            else s)"
  by (simp_all add: updateSearchCount_write_def updateSearchCount_create_def Let_def
        createDocument_def store_create_def split: fault.splits)

lemma try_served_lookup:
  "list_fault env = NoFault \<Longrightarrow>
   fst (updateSearchCount_try env s t mv) =
     fst (updateSearchCount_write env s t mv
            (take 1 (filter (\<lambda>d. searchTerm d = t) (documents s)))) \<and>
   snd (snd (updateSearchCount_try env s t mv)) =
     snd (snd (updateSearchCount_write env s t mv
            (take 1 (filter (\<lambda>d. searchTerm d = t) (documents s)))))"
  by (simp add: updateSearchCount_try_def Let_def lookup_resolved split: prod.splits)

lemma try_failed_lookup:
  "list_fault env \<noteq> NoFault \<Longrightarrow>
   fst (updateSearchCount_try env s t mv) =
     (case list_fault env of
        Throws e \<Rightarrow> Rejected e | ThrowsApplied e \<Rightarrow> Rejected e | _ \<Rightarrow> Pending) \<and>
   snd (snd (updateSearchCount_try env s t mv)) = s"
  by (simp add: updateSearchCount_try_def Let_def listDocuments_def split: fault.splits)

lemma try_found:
  assumes "wf_db s" and "find (\<lambda>x. searchTerm x = t) (documents s) = Some d"
    and "list_fault env = NoFault"
  shows "fst (updateSearchCount_try env s t mv) =
           (case write_fault env of
              NoFault \<Rightarrow> Resolved (apply_update (update_payload env mv d) d)
            | Throws e \<Rightarrow> Rejected e
            | ThrowsApplied e \<Rightarrow> Rejected e
            | Hangs \<Rightarrow> Pending
            | HangsApplied \<Rightarrow> Pending)"
    and "snd (snd (updateSearchCount_try env s t mv)) =
           (if carried_out (write_fault env)
            then s\<lparr>documents := update_first (dollar_id d) (update_payload env mv d) (documents s)\<rparr>
            else s)"
proof -
  from assms(2) obtain ys where fl: "filter (\<lambda>x. searchTerm x = t) (documents s) = d # ys"
    by (auto simp: find_filter_conv split: list.splits)
  from assms(2) have mem: "d \<in> set (documents s)" by (auto simp: find_Some_iff)
  from assms(1) have dist: "distinct (map dollar_id (documents s))" by (simp add: wf_db_def)
  show "fst (updateSearchCount_try env s t mv) =
           (case write_fault env of
              NoFault \<Rightarrow> Resolved (apply_update (update_payload env mv d) d)
            | Throws e \<Rightarrow> Rejected e
            | ThrowsApplied e \<Rightarrow> Rejected e
            | Hangs \<Rightarrow> Pending
            | HangsApplied \<Rightarrow> Pending)"
    by (simp add: try_served_lookup [OF assms(3)] fl write_found(1) [OF dist mem])
  show "snd (snd (updateSearchCount_try env s t mv)) =
           (if carried_out (write_fault env)
            then s\<lparr>documents := update_first (dollar_id d) (update_payload env mv d) (documents s)\<rparr>
            else s)"
    by (simp add: try_served_lookup [OF assms(3)] fl write_found(2) [OF dist mem])
qed

lemma try_not_found:
  assumes "find (\<lambda>x. searchTerm x = t) (documents s) = None" and "list_fault env = NoFault"
  shows "fst (updateSearchCount_try env s t mv) =
           (case write_fault env of
              NoFault \<Rightarrow> Resolved ((create_payload env t mv)\<lparr>dollar_id := next_id s\<rparr>)
            | Throws e \<Rightarrow> Rejected e
            | ThrowsApplied e \<Rightarrow> Rejected e
            | Hangs \<Rightarrow> Pending
            | HangsApplied \<Rightarrow> Pending)"
    and "snd (snd (updateSearchCount_try env s t mv)) =
           (if carried_out (write_fault env)
            then \<lparr>documents = documents s @ [(create_payload env t mv)\<lparr>dollar_id := next_id s\<rparr>],
                  next_id = Suc (next_id s)\<rparr>
            else s)"
proof -
  from assms(1) have fl: "filter (\<lambda>x. searchTerm x = t) (documents s) = []"
    by (auto simp: find_filter_conv split: list.splits)
  show "fst (updateSearchCount_try env s t mv) =
           (case write_fault env of
              NoFault \<Rightarrow> Resolved ((create_payload env t mv)\<lparr>dollar_id := next_id s\<rparr>)
            | Throws e \<Rightarrow> Rejected e
            | ThrowsApplied e \<Rightarrow> Rejected e
            | Hangs \<Rightarrow> Pending
            | HangsApplied \<Rightarrow> Pending)"
    by (simp add: try_served_lookup [OF assms(2)] fl write_not_found(1))
  show "snd (snd (updateSearchCount_try env s t mv)) =
           (if carried_out (write_fault env)
            then \<lparr>documents = documents s @ [(create_payload env t mv)\<lparr>dollar_id := next_id s\<rparr>],
                  next_id = Suc (next_id s)\<rparr>
            else s)"
    by (simp add: try_served_lookup [OF assms(2)] fl write_not_found(2))
qed

lemma ids_below_conv:
  "list_all (\<lambda>d. dollar_id d < n) ds = list_all (\<lambda>i. i < n) (map dollar_id ds)"
  by (simp add: list_all_iff)

lemma wf_update_first:
  "wf_db s \<Longrightarrow> wf_db (s\<lparr>documents := update_first i u (documents s)\<rparr>)"
  by (simp add: wf_db_def ids_below_conv ids_update_first)

lemma updateSearchCount_unfold:
  "raw \<noteq> [] \<Longrightarrow> toLowerCase (trim raw) \<noteq> [] \<Longrightarrow>
   updateSearchCount toLowerCase env s (Some raw) (Some mv) =
     (case updateSearchCount_try env s (toLowerCase (trim raw)) mv of
        (Resolved d, evs, s') \<Rightarrow> (Resolved (Some d), evs, s')
      | (Rejected e, evs, s') \<Rightarrow>
          (Resolved None, evs @ appwrite_catch ''Error updating search count:'' e, s')
      | (Pending, evs, s') \<Rightarrow> (Pending, evs, s'))"
  by (simp add: updateSearchCount_def Let_def)

lemma updateSearchCount_result:
  assumes "raw \<noteq> []" and "toLowerCase (trim raw) \<noteq> []"
  shows "fst (updateSearchCount toLowerCase env s (Some raw) (Some mv)) =
           (case fst (updateSearchCount_try env s (toLowerCase (trim raw)) mv) of
              Resolved d \<Rightarrow> Resolved (Some d)
            | Rejected e \<Rightarrow> Resolved None
            | Pending \<Rightarrow> Pending)"
    and "snd (snd (updateSearchCount toLowerCase env s (Some raw) (Some mv))) =
           snd (snd (updateSearchCount_try env s (toLowerCase (trim raw)) mv))"
  by (simp_all add: updateSearchCount_unfold [where toLowerCase = toLowerCase and raw = raw, OF assms] split: prod.splits promise.splits)

lemma updateSearchCount_never_rejects:
  "fst (updateSearchCount toLowerCase env s searchTerm_arg movie_arg) \<noteq> Rejected e"
  by (auto simp: updateSearchCount_def Let_def split: option.splits prod.splits promise.splits)

lemma nonempty_raw: "toLowerCase [] = [] \<Longrightarrow> toLowerCase (trim raw) \<noteq> [] \<Longrightarrow> raw \<noteq> []"
  by (auto simp: trim_Nil)

lemma counter_step_applied:
  assumes "wf_db s" and "raw \<noteq> []" and "toLowerCase (trim raw) = t" and "t \<noteq> []"
    and "list_fault env = NoFault" and "carried_out (write_fault env)"
  shows "wf_db (snd (snd (updateSearchCount toLowerCase env s (Some raw) (Some mv)))) \<and>
         counter (snd (snd (updateSearchCount toLowerCase env s (Some raw) (Some mv)))) t =
           (case find (\<lambda>d. searchTerm d = t) (documents s) of
              None \<Rightarrow> 1 | Some d \<Rightarrow> js_add (count d) 1) \<and>
         (\<forall>t'. t' \<noteq> t \<longrightarrow>
            counter (snd (snd (updateSearchCount toLowerCase env s (Some raw) (Some mv)))) t' =
              counter s t')"
proof (cases "find (\<lambda>x. searchTerm x = t) (documents s)")
  case None
  let ?d = "(create_payload env t mv)\<lparr>dollar_id := next_id s\<rparr>"
  from assms have ne: "toLowerCase (trim raw) \<noteq> []" by simp
  have res: "snd (snd (updateSearchCount toLowerCase env s (Some raw) (Some mv))) =
      \<lparr>documents = documents s @ [?d], next_id = Suc (next_id s)\<rparr>"
    using try_not_found(2) [OF None assms(5), of mv] assms(3,6)
    by (simp add: updateSearchCount_result(2) [where toLowerCase = toLowerCase and raw = raw, OF assms(2) ne])
  have new: "searchTerm ?d = t" "count ?d = 1" "dollar_id ?d = next_id s"
    by (simp_all add: create_payload_def)
  from assms(1) new(3) have "wf_db \<lparr>documents = documents s @ [?d], next_id = Suc (next_id s)\<rparr>"
    by (auto simp: wf_db_def list_all_iff)
  with None new show ?thesis
    by (simp add: res counter_def find_append_conv split: option.splits)
next
  case (Some d)
  let ?u = "update_payload env mv d"
  from assms have ne: "toLowerCase (trim raw) \<noteq> []" by simp
  have res: "snd (snd (updateSearchCount toLowerCase env s (Some raw) (Some mv))) =
      s\<lparr>documents := update_first (dollar_id d) ?u (documents s)\<rparr>"
    using try_found(2) [OF assms(1) Some assms(5), of mv] assms(3,6)
    by (simp add: updateSearchCount_result(2) [where toLowerCase = toLowerCase and raw = raw, OF assms(2) ne])
  from assms(1) have dist: "distinct (map dollar_id (documents s))" by (simp add: wf_db_def)
  from Some have mem: "d \<in> set (documents s)" and td: "searchTerm d = t"
    by (auto simp: find_Some_iff)
  have "counter (s\<lparr>documents := update_first (dollar_id d) ?u (documents s)\<rparr>) t =
          js_add (count d) 1"
    using find_term_update_first [OF dist Some, of ?u]
    by (simp add: counter_def apply_update_def update_payload_def)
  moreover have "\<forall>t'. t' \<noteq> t \<longrightarrow>
      counter (s\<lparr>documents := update_first (dollar_id d) ?u (documents s)\<rparr>) t' = counter s t'"
    using find_other_update_first [OF dist mem, of _ ?u] td
    by (simp add: counter_def)
  ultimately show ?thesis
    using wf_update_first [OF assms(1)] Some by (simp add: res)
qed

lemma counter_step_not_applied:
  assumes "wf_db s"
    and "raw = [] \<or> toLowerCase (trim raw) = [] \<or> list_fault env \<noteq> NoFault \<or>
         \<not> carried_out (write_fault env)"
  shows "snd (snd (updateSearchCount toLowerCase env s (Some raw) (Some mv))) = s"
proof (cases "raw = [] \<or> toLowerCase (trim raw) = []")
  case True
  then show ?thesis by (auto simp: updateSearchCount_def Let_def)
next
  case False
  then have r: "raw \<noteq> []" and ne: "toLowerCase (trim raw) \<noteq> []" by auto
  show ?thesis
  proof (cases "list_fault env = NoFault")
    case lf: False
    then show ?thesis
      by (simp add: updateSearchCount_result(2) [where toLowerCase = toLowerCase and raw = raw, OF r ne] try_failed_lookup)
  next
    case lf: True
    with assms(2) False have w: "\<not> carried_out (write_fault env)" by simp
    show ?thesis
    proof (cases "find (\<lambda>x. searchTerm x = toLowerCase (trim raw)) (documents s)")
      case None
      from try_not_found(2) [OF None lf, of mv] w show ?thesis
        by (simp add: updateSearchCount_result(2) [where toLowerCase = toLowerCase and raw = raw, OF r ne])
    next
      case (Some d)
      from try_found(2) [OF assms(1) Some lf, of mv] w show ?thesis
        by (simp add: updateSearchCount_result(2) [where toLowerCase = toLowerCase and raw = raw, OF r ne])
    qed
  qed
qed

lemma counter_run_records:
  "wf_db s \<Longrightarrow> t \<noteq> [] \<Longrightarrow> toLowerCase [] = [] \<Longrightarrow> - 9007199254740992 < counter s t \<Longrightarrow>
   counter s t +
     int (length (filter (\<lambda>c. toLowerCase (trim (rc_term c)) = t \<and> applied c) calls))
     \<le> 9007199254740992 \<Longrightarrow>
   wf_db (run_records toLowerCase s calls) \<and>
   counter (run_records toLowerCase s calls) t =
     counter s t +
     int (length (filter (\<lambda>c. toLowerCase (trim (rc_term c)) = t \<and> applied c) calls))"
proof (induction calls arbitrary: s)
  case Nil
  then show ?case by simp
next
  case (Cons c cs)
  let ?s1 = "snd (snd (updateSearchCount toLowerCase (rc_env c) s (Some (rc_term c))
                         (Some (rc_movie c))))"
  let ?k = "int (length (filter (\<lambda>c. toLowerCase (trim (rc_term c)) = t \<and> applied c) cs))"
  show ?case
  proof (cases "applied c \<and> toLowerCase (trim (rc_term c)) \<noteq> []")
    case True
    then have sv: "list_fault (rc_env c) = NoFault" "carried_out (write_fault (rc_env c))"
      and ne: "toLowerCase (trim (rc_term c)) \<noteq> []"
      by (simp_all add: applied_def)
    from nonempty_raw [where toLowerCase = toLowerCase and raw = "rc_term c", OF Cons.prems(3) ne] have r: "rc_term c \<noteq> []" .
    from counter_step_applied [where toLowerCase = toLowerCase and raw = "rc_term c" and mv = "rc_movie c", OF Cons.prems(1) r refl ne sv]
    have wf1: "wf_db ?s1"
      and same: "counter ?s1 (toLowerCase (trim (rc_term c))) =
                   (case find (\<lambda>d. searchTerm d = toLowerCase (trim (rc_term c))) (documents s) of
                      None \<Rightarrow> 1 | Some d \<Rightarrow> js_add (count d) 1)"
      and other: "\<And>t'. t' \<noteq> toLowerCase (trim (rc_term c)) \<Longrightarrow> counter ?s1 t' = counter s t'"
      by auto
    show ?thesis
    proof (cases "toLowerCase (trim (rc_term c)) = t")
      case eq: True
      with True Cons.prems(5) have up: "counter s t < 9007199254740992" by simp
      have "(case find (\<lambda>d. searchTerm d = t) (documents s) of
               None \<Rightarrow> 1 | Some d \<Rightarrow> js_add (count d) 1) = counter s t + 1"
        using js_add_exact [of "counter s t"] Cons.prems(4) up
        by (simp add: counter_def split: option.splits)
      with same eq have c1: "counter ?s1 t = counter s t + 1" by simp
      with Cons.prems(4,5) eq True
      have b: "- 9007199254740992 < counter ?s1 t" "counter ?s1 t + ?k \<le> 9007199254740992"
        by simp_all
      from Cons.IH [OF wf1 Cons.prems(2,3) b] c1 eq True show ?thesis by simp
    next
      case neq: False
      then have c1: "counter ?s1 t = counter s t" using other [of t] by simp
      with Cons.prems(4,5) neq
      have b: "- 9007199254740992 < counter ?s1 t" "counter ?s1 t + ?k \<le> 9007199254740992"
        by simp_all
      from Cons.IH [OF wf1 Cons.prems(2,3) b] c1 neq show ?thesis by simp
    qed
  next
    case False
    then have s1: "?s1 = s"
      by (intro counter_step_not_applied [where toLowerCase = toLowerCase, OF Cons.prems(1)])
         (auto simp: applied_def)
    from False Cons.prems(2)
    have f: "filter (\<lambda>c. toLowerCase (trim (rc_term c)) = t \<and> applied c) (c # cs) =
             filter (\<lambda>c. toLowerCase (trim (rc_term c)) = t \<and> applied c) cs"
      by auto
    from Cons.prems(5) have b: "counter s t + ?k \<le> 9007199254740992"
      by (simp only: f)
    from Cons.IH [OF Cons.prems(1,2,3,4) b] show ?thesis
      by (simp only: run_records.simps s1 f)
  qed
qed

lemma run_records_append:
  "run_records toLowerCase s (calls @ later) =
     run_records toLowerCase (run_records toLowerCase s calls) later"
  by (induction calls arbitrary: s) auto


text \<open>
  Claim C10. When the search term is absent or empty, or the movie is absent, or the term
  is empty after trimming and lower-casing, \<open>updateSearchCount\<close> returns \<open>null\<close> and makes
  no request to the document store: no lookup, no create, no update; the store is
  unchanged. A term made of white space only, of whatever kind, is such a term.
\<close>

theorem updateSearchCount_rejects_missing_input:
  assumes "searchTerm_arg = None \<or> searchTerm_arg = Some [] \<or> movie_arg = None \<or>
           (\<exists>t. searchTerm_arg = Some t \<and> toLowerCase (trim t) = []) \<or>
           (toLowerCase [] = [] \<and>
            (\<exists>ws. list_all is_white_space ws \<and> searchTerm_arg = Some (concat ws)))"
  shows "case updateSearchCount toLowerCase env s searchTerm_arg movie_arg of
           (r, evs, s') \<Rightarrow> r = Resolved None \<and> filter is_store_request evs = [] \<and> s' = s"
proof -
  from assms
  have "searchTerm_arg = None \<or> searchTerm_arg = Some [] \<or> movie_arg = None \<or>
        (\<exists>t. searchTerm_arg = Some t \<and> toLowerCase (trim t) = [])"
    by (auto simp: trim_blank)
  then show ?thesis
    by (auto simp: updateSearchCount_def Let_def split: option.splits)
qed

theorem updateSearchCount_rejects_missing_input_witness:
  "toLowerCase_ascii [] = [] \<and>
   list_all is_white_space [[CHR 0xC2, CHR 0xA0], [CHR 0x20], [CHR 0xE2, CHR 0x80, CHR 0xA8]] \<and>
   blank_term = concat [[CHR 0xC2, CHR 0xA0], [CHR 0x20], [CHR 0xE2, CHR 0x80, CHR 0xA8]] \<and>
   (case updateSearchCount toLowerCase_ascii no_faults empty_db (Some blank_term)
           (Some example_movie) of
      (r, evs, s') \<Rightarrow>
        r = Resolved None \<and> filter is_store_request evs = [] \<and> s' = empty_db)"
proof -
  have l: "toLowerCase_ascii [] = []" by (simp add: toLowerCase_ascii_def)
  have w: "list_all is_white_space
             [[CHR 0xC2, CHR 0xA0], [CHR 0x20], [CHR 0xE2, CHR 0x80, CHR 0xA8]]"
    by simp
  have b: "blank_term = concat [[CHR 0xC2, CHR 0xA0], [CHR 0x20], [CHR 0xE2, CHR 0x80, CHR 0xA8]]"
    by (simp add: blank_term_def)
  from l w b
  have h: "Some blank_term = None \<or> Some blank_term = Some [] \<or> Some example_movie = None \<or>
           (\<exists>t. Some blank_term = Some t \<and> toLowerCase_ascii (trim t) = []) \<or>
           (toLowerCase_ascii [] = [] \<and>
            (\<exists>ws. list_all is_white_space ws \<and> Some blank_term = Some (concat ws)))"
    by blast
  from updateSearchCount_rejects_missing_input
         [where toLowerCase = toLowerCase_ascii and env = no_faults and s = empty_db, OF h]
       l w b
  show ?thesis by blast
qed

text \<open>
  Claim C9. \<open>getTrendingMovies\<close> asks the document store for \<open>min(limit, 100)\<close> records,
  so for every limit above 100 it asks for, and returns, at most 100; an omitted argument
  means a limit of 10. The lookup is the only request it makes to the store.
\<close>

theorem getTrendingMovies_limit_capped:
  "case getTrendingMovies f s limit_arg of
     (r, evs) \<Rightarrow>
       (\<exists>rest. evs = ListDocuments
                       [QLimit (min (case limit_arg of None \<Rightarrow> 10 | Some l \<Rightarrow> l) 100),
                        QOrderDesc ''count'', QGreaterThan ''count'' 0] # rest \<and>
               filter is_store_request rest = []) \<and>
       (\<forall>ts. r = Resolved ts \<longrightarrow>
             length ts \<le> min (case limit_arg of None \<Rightarrow> 10 | Some l \<Rightarrow> l) 100)"
  by (auto simp: getTrendingMovies_def Let_def trending_queries_def listDocuments_def
                 appwrite_catch_def select_documents_def
           split: promise.splits fault.splits option.splits if_splits)

theorem getTrendingMovies_limit_capped_witness:
  "fst (getTrendingMovies NoFault empty_db (Some 250)) = Resolved [] \<and>
   hd (snd (getTrendingMovies NoFault empty_db (Some 250))) =
     ListDocuments [QLimit 100, QOrderDesc ''count'', QGreaterThan ''count'' 0] \<and>
   hd (snd (getTrendingMovies NoFault empty_db None)) =
     ListDocuments [QLimit 10, QOrderDesc ''count'', QGreaterThan ''count'' 0]"
  using getTrendingMovies_limit_capped [where f = NoFault and s = empty_db and limit_arg = "Some 250"]
        getTrendingMovies_limit_capped [where f = NoFault and s = empty_db and limit_arg = None]
  by (auto simp: getTrendingMovies_def Let_def trending_queries_def listDocuments_def
                 select_documents_def empty_db_def order_desc_def)

lemma poster_url_of_eq:
  "poster_url_of mv =
     (case m_poster_path mv of
        None \<Rightarrow> None
      | Some p \<Rightarrow> if p = [] then None else Some (''https://image.tmdb.org/t/p/w500'' @ p))"
  by (simp add: poster_url_of_def image_base_def split: option.splits)

text \<open>
  Claim C5, as amended. \<open>updateSearchCount\<close> never lets an exception out. For a term that
  is not empty after trimming and lower-casing, on a store with unique identifiers: when
  the lookup or the write ends in an error (network, 401, 404, ...) it returns \<open>null\<close>, and
  the store is unchanged unless the store had carried the write out. When both requests
  are served and a record with exactly the normalized term exists, it returns that record
  with the counter replaced by the double \<open>old count + 1\<close>, which is the old counter plus
  one when the old counter is below \<open>2^53\<close> in magnitude, with the title and the poster
  address of the movie (the image base address followed by its poster path, or \<open>null\<close>
  without one) and with the last-seen time set to the clock; this is the record now
  stored. When no such record exists it appends and returns a new record with counter 1
  whose first-seen and last-seen times are the two readings of the clock taken during the
  call.
\<close>

theorem updateSearchCount_contract:
  "(\<forall>e. fst (updateSearchCount toLowerCase env s searchTerm_arg movie_arg) \<noteq> Rejected e) \<and>
   (wf_db s \<and> searchTerm_arg = Some raw \<and> raw \<noteq> [] \<and> movie_arg = Some mv \<and>
    toLowerCase (trim raw) = t \<and> t \<noteq> [] \<longrightarrow>
      ((\<exists>e. list_fault env = Throws e \<or> list_fault env = ThrowsApplied e) \<or>
       (list_fault env = NoFault \<and>
        (\<exists>e. write_fault env = Throws e \<or> write_fault env = ThrowsApplied e)) \<longrightarrow>
         fst (updateSearchCount toLowerCase env s searchTerm_arg movie_arg) = Resolved None) \<and>
      (list_fault env \<noteq> NoFault \<or> \<not> carried_out (write_fault env) \<longrightarrow>
         snd (snd (updateSearchCount toLowerCase env s searchTerm_arg movie_arg)) = s) \<and>
      (list_fault env = NoFault \<and> write_fault env = NoFault \<longrightarrow>
         (case find (\<lambda>d. searchTerm d = t) (documents s) of
            Some d \<Rightarrow>
              fst (updateSearchCount toLowerCase env s searchTerm_arg movie_arg) =
                Resolved (Some (d\<lparr>count := js_add (count d) 1, lastSearched := date1 env,
                                  title := m_title mv,
                                  poster_url := (case m_poster_path mv of
                                 None \<Rightarrow> None
                               | Some p \<Rightarrow>
                                   if p = [] then None
                                   else Some (''https://image.tmdb.org/t/p/w500'' @ p))\<rparr>)) \<and>
              (- 9007199254740992 < count d \<and> count d < 9007199254740992 \<longrightarrow>
                 js_add (count d) 1 = count d + 1) \<and>
              find (\<lambda>d. searchTerm d = t)
                (documents (snd (snd (updateSearchCount toLowerCase env s searchTerm_arg
                                        movie_arg)))) =
                Some (d\<lparr>count := js_add (count d) 1, lastSearched := date1 env,
                         title := m_title mv,
                         poster_url := (case m_poster_path mv of
                                 None \<Rightarrow> None
                               | Some p \<Rightarrow>
                                   if p = [] then None
                                   else Some (''https://image.tmdb.org/t/p/w500'' @ p))\<rparr>) \<and>
              length (documents (snd (snd (updateSearchCount toLowerCase env s searchTerm_arg
                                             movie_arg)))) =
                length (documents s)
          | None \<Rightarrow>
              (\<exists>new. fst (updateSearchCount toLowerCase env s searchTerm_arg movie_arg) =
                       Resolved (Some new) \<and>
                 documents (snd (snd (updateSearchCount toLowerCase env s searchTerm_arg
                                        movie_arg))) =
                   documents s @ [new] \<and>
                 searchTerm new = t \<and> count new = 1 \<and> movie_id new = m_id mv \<and>
                 firstSearched new = date1 env \<and> lastSearched new = date2 env \<and>
                 title new = m_title mv \<and>
                 poster_url new = (case m_poster_path mv of
                                 None \<Rightarrow> None
                               | Some p \<Rightarrow>
                                   if p = [] then None
                                   else Some (''https://image.tmdb.org/t/p/w500'' @ p))))))"
  (is "?A \<and> (?H \<longrightarrow> (?F \<longrightarrow> ?FC) \<and> (?N \<longrightarrow> ?NC) \<and> (?S \<longrightarrow> ?SC))")
proof -
  have never: ?A
    by (simp add: updateSearchCount_never_rejects)
  have failing: ?FC if h: ?H and f: ?F
  proof -
    from h have r: "raw \<noteq> []" and ne: "toLowerCase (trim raw) \<noteq> []"
      and args: "searchTerm_arg = Some raw" "movie_arg = Some mv" and wf: "wf_db s" by auto
    show ?thesis
    proof (cases "list_fault env = NoFault")
      case False
      with f show ?thesis
        by (auto simp: args updateSearchCount_result(1)
                         [where toLowerCase = toLowerCase and raw = raw, OF r ne]
                       try_failed_lookup)
    next
      case True
      with f obtain e where w: "write_fault env = Throws e \<or> write_fault env = ThrowsApplied e"
        by auto
      show ?thesis
      proof (cases "find (\<lambda>x. searchTerm x = toLowerCase (trim raw)) (documents s)")
        case None
        from try_not_found(1) [OF None True, of mv] w show ?thesis
          by (auto simp: args updateSearchCount_result(1)
                           [where toLowerCase = toLowerCase and raw = raw, OF r ne])
      next
        case (Some d)
        from try_found(1) [OF wf Some True, of mv] w show ?thesis
          by (auto simp: args updateSearchCount_result(1)
                           [where toLowerCase = toLowerCase and raw = raw, OF r ne])
      qed
    qed
  qed
  have unchanged: ?NC if h: ?H and n: ?N
  proof -
    from h have args: "searchTerm_arg = Some raw" "movie_arg = Some mv" and wf: "wf_db s"
      by auto
    from n show ?thesis
      unfolding args
      by (intro counter_step_not_applied [where toLowerCase = toLowerCase, OF wf]) auto
  qed
  have serving: ?SC if h: ?H and sv: ?S
  proof (cases "find (\<lambda>d. searchTerm d = t) (documents s)")
    case None
    from h have r: "raw \<noteq> []" and ne: "toLowerCase (trim raw) \<noteq> []"
      and args: "searchTerm_arg = Some raw" "movie_arg = Some mv"
      and t: "toLowerCase (trim raw) = t" by auto
    from sv have lf: "list_fault env = NoFault" and wfl: "write_fault env = NoFault" by auto
    from None t have nf: "find (\<lambda>x. searchTerm x = toLowerCase (trim raw)) (documents s) = None"
      by simp
    have "fst (updateSearchCount toLowerCase env s searchTerm_arg movie_arg) =
            Resolved (Some ((create_payload env t mv)\<lparr>dollar_id := next_id s\<rparr>)) \<and>
          documents (snd (snd (updateSearchCount toLowerCase env s searchTerm_arg movie_arg))) =
            documents s @ [(create_payload env t mv)\<lparr>dollar_id := next_id s\<rparr>]"
      using try_not_found [OF nf lf, of mv] wfl t
      by (simp add: args updateSearchCount_result
                      [where toLowerCase = toLowerCase and raw = raw, OF r ne])
    with None show ?thesis by (simp add: create_payload_def poster_url_of_eq)
  next
    case (Some d)
    from h have r: "raw \<noteq> []" and ne: "toLowerCase (trim raw) \<noteq> []" and wf: "wf_db s"
      and args: "searchTerm_arg = Some raw" "movie_arg = Some mv"
      and t: "toLowerCase (trim raw) = t" by auto
    from sv have lf: "list_fault env = NoFault" and wfl: "write_fault env = NoFault" by auto
    from wf have dist: "distinct (map dollar_id (documents s))" by (simp add: wf_db_def)
    from Some t have fd: "find (\<lambda>x. searchTerm x = toLowerCase (trim raw)) (documents s) = Some d"
      by simp
    have "fst (updateSearchCount toLowerCase env s searchTerm_arg movie_arg) =
            Resolved (Some (apply_update (update_payload env mv d) d)) \<and>
          snd (snd (updateSearchCount toLowerCase env s searchTerm_arg movie_arg)) =
            s\<lparr>documents := update_first (dollar_id d) (update_payload env mv d) (documents s)\<rparr>"
      using try_found [OF wf fd lf, of mv] wfl
      by (simp add: args updateSearchCount_result
                      [where toLowerCase = toLowerCase and raw = raw, OF r ne])
    with Some find_term_update_first [OF dist Some, of "update_payload env mv d"]
    show ?thesis
      by (simp add: apply_update_def update_payload_def length_update_first poster_url_of_eq
            js_add_exact)
  qed
  from never failing unchanged serving show ?thesis by blast
qed

theorem updateSearchCount_contract_witness:
  "wf_db (batman_db 5) \<and> toLowerCase_ascii (trim '' BatMan '') = ''batman'' \<and>
   fst (updateSearchCount toLowerCase_ascii no_faults (batman_db 5) (Some '' BatMan '')
          (Some example_movie)) =
     Resolved (Some \<lparr>dollar_id = 0, searchTerm = ''batman'', count = 6, movie_id = 268,
                      title = ''Batman'',
                      poster_url = Some ''https://image.tmdb.org/t/p/w500/b.jpg'',
                      release_date = Some ''1966-07-30'', vote_average = 6,
                      firstSearched = 10, lastSearched = 1000\<rparr>) \<and>
   counter (snd (snd (updateSearchCount toLowerCase_ascii no_faults (batman_db 5)
                        (Some '' BatMan '') (Some example_movie)))) ''batman'' = 6 \<and>
   wf_db empty_db \<and>
   (\<exists>new. fst (updateSearchCount toLowerCase_ascii no_faults empty_db (Some '' BatMan '')
                 (Some example_movie)) = Resolved (Some new) \<and>
          searchTerm new = ''batman'' \<and> count new = 1 \<and>
          poster_url new = Some ''https://image.tmdb.org/t/p/w500/b.jpg'' \<and>
          firstSearched new = 1000 \<and> lastSearched new = 1001) \<and>
   fst (updateSearchCount toLowerCase_ascii ledger_down empty_db (Some '' BatMan '')
          (Some example_movie)) = Resolved None"
proof -
  have wf5: "wf_db (batman_db 5)" by (simp add: wf_db_def batman_db_def)
  have wf0: "wf_db empty_db" by (simp add: wf_db_def empty_db_def)
  have t: "toLowerCase_ascii (trim '' BatMan '') = ''batman''" by code_simp
  have r: "'' BatMan '' \<noteq> []" by simp
  have f5: "find (\<lambda>d. searchTerm d = ''batman'') (documents (batman_db 5)) =
              Some \<lparr>dollar_id = 0, searchTerm = ''batman'', count = 5, movie_id = 268,
                    title = ''Batman (1966)'', poster_url = None,
                    release_date = Some ''1966-07-30'', vote_average = 6,
                    firstSearched = 10, lastSearched = 20\<rparr>"
    by (simp add: batman_db_def)
  have f0: "find (\<lambda>d. searchTerm d = ''batman'') (documents empty_db) = None"
    by (simp add: empty_db_def)
  have six: "js_add 5 1 = 6" by (simp add: js_add_exact)
  note found = updateSearchCount_contract [where toLowerCase = toLowerCase_ascii
      and env = no_faults and s = "batman_db 5"
      and searchTerm_arg = "Some '' BatMan ''" and movie_arg = "Some example_movie"
      and raw = "'' BatMan ''" and mv = example_movie and t = "''batman''"]
  from found wf5 t r f5 six
  have a: "fst (updateSearchCount toLowerCase_ascii no_faults (batman_db 5) (Some '' BatMan '')
          (Some example_movie)) =
     Resolved (Some \<lparr>dollar_id = 0, searchTerm = ''batman'', count = 6, movie_id = 268,
                      title = ''Batman'',
                      poster_url = Some ''https://image.tmdb.org/t/p/w500/b.jpg'',
                      release_date = Some ''1966-07-30'', vote_average = 6,
                      firstSearched = 10, lastSearched = 1000\<rparr>)"
    by (simp add: no_faults_def example_movie_def)
  from found wf5 t r f5 six
  have a': "counter (snd (snd (updateSearchCount toLowerCase_ascii no_faults (batman_db 5)
                        (Some '' BatMan '') (Some example_movie)))) ''batman'' = 6"
    by (simp add: no_faults_def example_movie_def counter_def)
  from updateSearchCount_contract [where toLowerCase = toLowerCase_ascii
      and env = no_faults and s = empty_db
      and searchTerm_arg = "Some '' BatMan ''" and movie_arg = "Some example_movie"
      and raw = "'' BatMan ''" and mv = example_movie and t = "''batman''"] wf0 t r f0
  have b: "\<exists>new. fst (updateSearchCount toLowerCase_ascii no_faults empty_db (Some '' BatMan '')
                 (Some example_movie)) = Resolved (Some new) \<and>
          searchTerm new = ''batman'' \<and> count new = 1 \<and>
          poster_url new = Some ''https://image.tmdb.org/t/p/w500/b.jpg'' \<and>
          firstSearched new = 1000 \<and> lastSearched new = 1001"
    by (auto simp: no_faults_def example_movie_def)
  from updateSearchCount_contract [where toLowerCase = toLowerCase_ascii
      and env = ledger_down and s = empty_db
      and searchTerm_arg = "Some '' BatMan ''" and movie_arg = "Some example_movie"
      and raw = "'' BatMan ''" and mv = example_movie and t = "''batman''"] wf0 t r
  have c: "fst (updateSearchCount toLowerCase_ascii ledger_down empty_db (Some '' BatMan '')
          (Some example_movie)) = Resolved None"
    by (auto simp: ledger_down_def)
  from wf5 wf0 t a a' b c show ?thesis by blast
qed

lemma js_add_2_53: "js_add 9007199254740992 1 = 9007199254740992"
  by code_simp

lemma batman_norm: "toLowerCase_ascii (trim ''Batman'') = ''batman''"
  by code_simp

lemma wf_batman_db: "wf_db (batman_db c)"
  by (simp add: wf_db_def batman_db_def)

lemma counter_batman_db: "counter (batman_db c) ''batman'' = c"
  by (simp add: counter_def batman_db_def)

lemma batman_served:
  "fst (updateSearchCount toLowerCase_ascii no_faults (batman_db c) (Some ''Batman'')
          (Some example_movie)) =
     Resolved (Some \<lparr>dollar_id = 0, searchTerm = ''batman'', count = js_add c 1,
                      movie_id = 268, title = ''Batman'',
                      poster_url = Some ''https://image.tmdb.org/t/p/w500/b.jpg'',
                      release_date = Some ''1966-07-30'', vote_average = 6,
                      firstSearched = 10, lastSearched = 1000\<rparr>)"
  "counter (snd (snd (updateSearchCount toLowerCase_ascii no_faults (batman_db c)
                        (Some ''Batman'') (Some example_movie)))) ''batman'' = js_add c 1"
proof -
  have r: "''Batman'' \<noteq> []" by simp
  have ne: "toLowerCase_ascii (trim ''Batman'') \<noteq> []" by (simp add: batman_norm)
  have fd: "find (\<lambda>x. searchTerm x = toLowerCase_ascii (trim ''Batman''))
              (documents (batman_db c)) = Some (hd (documents (batman_db c)))"
    by (simp add: batman_norm batman_db_def)
  have lf: "list_fault no_faults = NoFault" and wfl: "write_fault no_faults = NoFault"
    by (simp_all add: no_faults_def)
  note res = updateSearchCount_result
               [where toLowerCase = toLowerCase_ascii and raw = "''Batman''", OF r ne]
  note tf = try_found [OF wf_batman_db fd lf, of example_movie]
  show "fst (updateSearchCount toLowerCase_ascii no_faults (batman_db c) (Some ''Batman'')
          (Some example_movie)) =
     Resolved (Some \<lparr>dollar_id = 0, searchTerm = ''batman'', count = js_add c 1,
                      movie_id = 268, title = ''Batman'',
                      poster_url = Some ''https://image.tmdb.org/t/p/w500/b.jpg'',
                      release_date = Some ''1966-07-30'', vote_average = 6,
                      firstSearched = 10, lastSearched = 1000\<rparr>)"
    using tf(1) wfl
    by (simp add: res apply_update_def update_payload_def batman_db_def no_faults_def
          example_movie_def poster_url_of_def image_base_def)
  show "counter (snd (snd (updateSearchCount toLowerCase_ascii no_faults (batman_db c)
                        (Some ''Batman'') (Some example_movie)))) ''batman'' = js_add c 1"
    using tf(2) wfl
    by (simp add: res counter_def update_payload_def apply_update_def batman_db_def
          no_faults_def batman_norm)
qed

text \<open>
  Claim C5 as stated fails at \<open>2^53\<close>: for a record whose counter is 9007199254740992 the
  served update returns and stores the record with the same counter, not an incremented
  one.
\<close>

theorem counter_stuck_at_2_53_counterexample:
  "counter (batman_db 9007199254740992) ''batman'' = 9007199254740992 \<and>
   (case fst (updateSearchCount toLowerCase_ascii no_faults (batman_db 9007199254740992)
                (Some ''Batman'') (Some example_movie)) of
      Resolved (Some d) \<Rightarrow> count d = 9007199254740992 \<and> searchTerm d = ''batman''
    | Resolved None \<Rightarrow> False
    | Rejected e \<Rightarrow> False
    | Pending \<Rightarrow> False) \<and>
   counter (snd (snd (updateSearchCount toLowerCase_ascii no_faults
                        (batman_db 9007199254740992) (Some ''Batman'') (Some example_movie))))
     ''batman'' = 9007199254740992"
  by (simp add: counter_batman_db batman_served js_add_2_53)

text \<open>
  Claim C3, as amended. For calls made one after another on a store with unique
  identifiers, and as long as the counter stays within \<open>2^53\<close>: after any sequence of calls
  the counter of a normalized term is its initial value plus the number of calls whose term
  normalizes (trim, lower-case) to it and whose write the store applied; so it never
  decreases, over the sequence and over any continuation of it. A call whose lookup fails,
  or whose write the store does not carry out, leaves the counter as it was.
\<close>

theorem counter_counts_applied_writes:
  assumes "wf_db s" and "t \<noteq> []" and "toLowerCase [] = []"
    and "- 9007199254740992 < counter s t"
    and "counter s t +
           int (length (filter (\<lambda>c. toLowerCase (trim (rc_term c)) = t \<and> applied c)
                          (calls @ later))) \<le> 9007199254740992"
  shows "counter (run_records toLowerCase s calls) t =
           counter s t +
           int (length (filter (\<lambda>c. toLowerCase (trim (rc_term c)) = t \<and> applied c) calls)) \<and>
         counter s t \<le> counter (run_records toLowerCase s calls) t \<and>
         counter (run_records toLowerCase s calls) t \<le>
           counter (run_records toLowerCase s (calls @ later)) t"
proof -
  from assms(5)
  have b: "counter s t +
           int (length (filter (\<lambda>c. toLowerCase (trim (rc_term c)) = t \<and> applied c) calls))
           \<le> 9007199254740992"
    by simp
  from counter_run_records [OF assms(1-4) b]
       counter_run_records [OF assms(1-5)]
  show ?thesis by simp
qed

theorem counter_counts_applied_writes_witness:
  "wf_db empty_db \<and> ''batman'' \<noteq> [] \<and> toLowerCase_ascii [] = [] \<and>
   counter empty_db ''batman'' = 0 \<and>
   length example_calls = 3 \<and>
   length (filter (\<lambda>c. toLowerCase_ascii (trim (rc_term c)) = ''batman'' \<and> applied c)
             example_calls) = 2 \<and>
   counter (run_records toLowerCase_ascii empty_db example_calls) ''batman'' = 2"
proof -
  have wf: "wf_db empty_db" by (simp add: wf_db_def empty_db_def)
  have ne: "''batman'' \<noteq> []" by simp
  have l: "toLowerCase_ascii [] = []" by (simp add: toLowerCase_ascii_def)
  have n: "length (filter (\<lambda>c. toLowerCase_ascii (trim (rc_term c)) = ''batman'' \<and> applied c)
             (example_calls @ [])) = 2"
    by code_simp
  have z: "counter empty_db ''batman'' = 0" by (simp add: counter_def empty_db_def)
  from z have lo: "- 9007199254740992 < counter empty_db ''batman''" by simp
  from z n have hi: "counter empty_db ''batman'' +
      int (length (filter (\<lambda>c. toLowerCase_ascii (trim (rc_term c)) = ''batman'' \<and> applied c)
             (example_calls @ []))) \<le> 9007199254740992"
    by simp
  from counter_counts_applied_writes
         [where toLowerCase = toLowerCase_ascii and later = "[]", OF wf ne l lo hi] n z wf l
  show ?thesis by (simp add: example_calls_def)
qed

lemma select_trending:
  "select_documents s (trending_queries limit) =
     take (min limit 100) (sort_key (\<lambda>d. - count d) (filter (\<lambda>d. 0 < count d) (documents s)))"
  by (simp add: select_documents_def trending_queries_def order_desc_def int_attr_def)

lemma trending_resolved:
  "fst (getTrendingMovies NoFault s (Some limit)) =
     Resolved (map to_trending (select_documents s (trending_queries limit)))"
  by (simp add: getTrendingMovies_def Let_def listDocuments_def trending_queries_def)

lemma sorted_desc_sort_key:
  "sorted_wrt (\<lambda>a b. count b \<le> count a) (sort_key (\<lambda>d. - count d) ds)"
  using sorted_sort_key [of "\<lambda>d. - count d" ds] by (simp add: sorted_map)

lemma t_count_to_trending: "t_count (to_trending d) = count d"
  by (simp add: to_trending_def)

lemma crowded_eligible:
  "filter (\<lambda>d. 0 < count d) (documents crowded_db) = documents crowded_db"
  by (simp add: crowded_db_def numbered_doc_def filter_map o_def)

text \<open>
  Claim C4, as amended. With \<open>N\<close> records of counter above 0 in the store, a served
  \<open>getTrendingMovies(limit)\<close> returns exactly \<open>min(limit, 100, N)\<close> records, hence at most
  \<open>limit\<close>, and exactly \<open>limit\<close> when \<open>limit \<le> 100\<close> and \<open>N \<ge> limit\<close>; each has a
  counter above 0 and the counters never increase along the list. When the store throws,
  the result is the empty list; no exception leaves the function.
\<close>

theorem getTrendingMovies_top:
  "(f = NoFault \<longrightarrow>
      (\<exists>ts. fst (getTrendingMovies f s (Some limit)) = Resolved ts \<and>
            length ts \<le> limit \<and>
            length ts = min (min limit 100) (length (filter (\<lambda>d. 0 < count d) (documents s))) \<and>
            list_all (\<lambda>t. 0 < t_count t) ts \<and>
            sorted_wrt (\<lambda>a b. t_count b \<le> t_count a) ts)) \<and>
   (\<forall>e. f = Throws e \<longrightarrow> fst (getTrendingMovies f s (Some limit)) = Resolved []) \<and>
   (\<forall>e. fst (getTrendingMovies f s (Some limit)) \<noteq> Rejected e)"
proof (intro conjI impI allI)
  assume f: "f = NoFault"
  let ?ds = "select_documents s (trending_queries limit)"
  have len: "length ?ds = min (min limit 100) (length (filter (\<lambda>d. 0 < count d) (documents s)))"
    by (simp add: select_trending min.commute)
  have pos: "list_all (\<lambda>d. 0 < count d) ?ds"
    unfolding select_trending list_all_iff
    by (auto dest!: in_set_takeD)
  have srt: "sorted_wrt (\<lambda>a b. count b \<le> count a) ?ds"
    unfolding select_trending by (rule sorted_wrt_take [OF sorted_desc_sort_key])
  show "\<exists>ts. fst (getTrendingMovies f s (Some limit)) = Resolved ts \<and>
            length ts \<le> limit \<and>
            length ts = min (min limit 100) (length (filter (\<lambda>d. 0 < count d) (documents s))) \<and>
            list_all (\<lambda>t. 0 < t_count t) ts \<and>
            sorted_wrt (\<lambda>a b. t_count b \<le> t_count a) ts"
    unfolding f trending_resolved
    using len pos srt
    by (simp add: list_all_iff sorted_wrt_map t_count_to_trending)
next
  fix e assume "f = Throws e"
  then show "fst (getTrendingMovies f s (Some limit)) = Resolved []"
    by (simp add: getTrendingMovies_def Let_def listDocuments_def)
next
  fix e show "fst (getTrendingMovies f s (Some limit)) \<noteq> Rejected e"
    by (simp add: getTrendingMovies_def Let_def listDocuments_def trending_queries_def
             split: fault.splits)
qed

theorem getTrendingMovies_top_witness:
  "(\<exists>ts. fst (getTrendingMovies NoFault crowded_db (Some 5)) = Resolved ts \<and>
         length ts = 5 \<and>
         list_all (\<lambda>t. 0 < t_count t) ts \<and>
         sorted_wrt (\<lambda>a b. t_count b \<le> t_count a) ts) \<and>
   fst (getTrendingMovies (Throws not_found_error) crowded_db (Some 5)) = Resolved []"
proof -
  have n: "length (filter (\<lambda>d. 0 < count d) (documents crowded_db)) = 101"
    by (simp add: crowded_eligible) (simp add: crowded_db_def)
  from getTrendingMovies_top [where f = NoFault and s = crowded_db and limit = 5] n
  have a: "\<exists>ts. fst (getTrendingMovies NoFault crowded_db (Some 5)) = Resolved ts \<and>
         length ts = 5 \<and>
         list_all (\<lambda>t. 0 < t_count t) ts \<and>
         sorted_wrt (\<lambda>a b. t_count b \<le> t_count a) ts"
    by auto
  from getTrendingMovies_top
         [where f = "Throws not_found_error" and s = crowded_db and limit = 5]
  have b: "fst (getTrendingMovies (Throws not_found_error) crowded_db (Some 5)) = Resolved []"
    by auto
  from a b show ?thesis by blast
qed

text \<open>
  The claim as stated fails above the cap: with 101 eligible records and a limit of 101,
  100 records are returned.
\<close>

theorem getTrendingMovies_exact_limit_counterexample:
  "101 \<le> length (filter (\<lambda>d. 0 < count d) (documents crowded_db)) \<and>
   (case fst (getTrendingMovies NoFault crowded_db (Some 101)) of
      Resolved ts \<Rightarrow> length ts = 100 \<and> length ts \<noteq> 101
    | Rejected e \<Rightarrow> False
    | Pending \<Rightarrow> False)"
  unfolding trending_resolved
  by (simp add: select_trending crowded_eligible) (simp add: crowded_db_def)

section \<open>Verification: the fetch pipeline\<close>

lemma run_events_append: "run_events st (a @ b) = run_events (run_events st a) b"
  by (simp add: run_events_def)

lemma apply_quiet:
  "is_store_request e \<or> is_console e \<or> is_http_request e \<Longrightarrow> apply_event st e = st"
  by (cases e) auto

lemma run_quiet:
  "list_all (\<lambda>e. is_store_request e \<or> is_console e \<or> is_http_request e) evs \<Longrightarrow>
   run_events st evs = st"
  by (induction evs arbitrary: st) (auto simp: run_events_def apply_quiet)

lemma run_quiet_mid:
  assumes "list_all (\<lambda>e. is_store_request e \<or> is_console e) evs"
  shows "run_events st (a @ evs @ b) = run_events st (a @ b)"
proof -
  from assms have "list_all (\<lambda>e. is_store_request e \<or> is_console e \<or> is_http_request e) evs"
    by (auto simp: list_all_iff)
  then show ?thesis by (simp add: run_events_append run_quiet)
qed

lemma try_events_quiet:
  "list_all (\<lambda>e. is_store_request e \<or> is_console e)
     (fst (snd (updateSearchCount_try env s t mv)))"
  by (auto simp: updateSearchCount_try_def updateSearchCount_write_def Let_def listDocuments_def
        updateSearchCount_update_def updateSearchCount_create_def updateDocument_def
        createDocument_def store_create_def
      split: fault.splits option.splits prod.splits promise.splits if_splits)

lemma catch_events_quiet:
  "list_all (\<lambda>e. is_store_request e \<or> is_console e) (appwrite_catch w e)"
  by (simp add: appwrite_catch_def)

lemma ledger_events_quiet:
  "list_all (\<lambda>e. is_store_request e \<or> is_console e)
     (fst (snd (updateSearchCount toLowerCase env s searchTerm_arg movie_arg)))"
  using try_events_quiet [of env s "toLowerCase (trim (the searchTerm_arg))" "the movie_arg"]
  by (auto simp: updateSearchCount_def Let_def catch_events_quiet
      split: option.splits prod.splits promise.splits)


lemma record_search_quiet:
  "list_all (\<lambda>e. is_store_request e \<or> is_console e) (fst (snd (record_search toLowerCase env s query rs)))"
  using ledger_events_quiet [of toLowerCase env s "Some query" "Some (hd rs)"]
  by (auto simp: record_search_def split: prod.splits promise.splits)

lemma record_search_no_throw: "fst (record_search toLowerCase env s query rs) \<noteq> Threw e"
  by (auto simp: record_search_def split: prod.splits promise.splits)

lemma fetchMovies_found:
  assumes "truthy API_KEY" "query \<noteq> [] \<or> initialLoad st"
    and "fetch_result env = Resolved resp" "ok resp" "json resp = Resolved (Some rs)" "rs \<noteq> []"
  shows "fetchMovies toLowerCase API_KEY env st s query isRetry =
     (fetchMovies_start isRetry @
      [ConsoleLog (''Fetching movies: '' @
                   (if query \<noteq> [] then search_endpoint query else discover_endpoint)),
       HttpGet (if query \<noteq> [] then search_endpoint query else discover_endpoint),
       SetMovieList (shown_movies rs)] @
      fst (snd (record_search toLowerCase (ledger env) s query rs)) @
      (if fst (record_search toLowerCase (ledger env) s query rs) = Suspended then []
       else ConsoleLog (''Successfully fetched '' @ show_nat (length rs) @ '' movies'') #
            fetchMovies_finally st),
      snd (snd (record_search toLowerCase (ledger env) s query rs)))"
  using assms record_search_no_throw [of toLowerCase "ledger env" s query rs]
  by (cases "record_search toLowerCase (ledger env) s query rs";
      cases "fst (record_search toLowerCase (ledger env) s query rs)")
     (auto simp: fetchMovies_def fetchMovies_try_def Let_def)


lemma state_after_found:
  assumes "list_all (\<lambda>e. is_store_request e \<or> is_console e) levs"
  shows "run_events st (fetchMovies_start isRetry @ ConsoleLog a # HttpGet b # SetMovieList ms #
            levs @ ConsoleLog c # fetchMovies_finally st) =
         st\<lparr>movieList := ms, errorMessage := [], isLoading := False, isRetrying := False,
            initialLoad := False\<rparr>"
proof -
  have "run_events st ((fetchMovies_start isRetry @ [ConsoleLog a, HttpGet b, SetMovieList ms]) @ levs
            @ (ConsoleLog c # fetchMovies_finally st)) =
        run_events st ((fetchMovies_start isRetry @ [ConsoleLog a, HttpGet b, SetMovieList ms]) @
            (ConsoleLog c # fetchMovies_finally st))"
    by (rule run_quiet_mid [OF assms])
  then show ?thesis
    by (cases st) (simp add: run_events_def fetchMovies_start_def fetchMovies_finally_def)
qed

lemma state_while_recording:
  assumes "list_all (\<lambda>e. is_store_request e \<or> is_console e) levs"
  shows "run_events st (fetchMovies_start isRetry @ ConsoleLog a # HttpGet b # SetMovieList ms #
            levs) =
         (if isRetry then st\<lparr>movieList := ms, errorMessage := [], isRetrying := True\<rparr>
          else st\<lparr>movieList := ms, errorMessage := [], isLoading := True\<rparr>)"
proof -
  have "run_events st ((fetchMovies_start isRetry @ [ConsoleLog a, HttpGet b, SetMovieList ms]) @ levs @ []) =
        run_events st ((fetchMovies_start isRetry @ [ConsoleLog a, HttpGet b, SetMovieList ms]) @ [])"
    by (rule run_quiet_mid [OF assms])
  then show ?thesis
    by (cases st) (simp add: run_events_def fetchMovies_start_def)
qed



text \<open>
  Claim C2, as amended. For a provider response with a non-empty results list, the list
  shown is the results whose poster reference is truthy (neither absent nor the empty
  string) when there is one, and the full results list otherwise; it is never empty. This
  holds whatever the ledger update does afterwards.
\<close>

theorem shown_list_never_empty:
  assumes "truthy API_KEY" and "query \<noteq> [] \<or> initialLoad st"
    and "fetch_result env = Resolved resp" and "ok resp"
    and "json resp = Resolved (Some rs)" and "rs \<noteq> []"
  shows "movieList (run_events st (fst (fetchMovies toLowerCase API_KEY env st s query isRetry))) =
           (if filter (\<lambda>m. truthy (m_poster_path m)) rs \<noteq> []
            then filter (\<lambda>m. truthy (m_poster_path m)) rs else rs) \<and>
         movieList (run_events st (fst (fetchMovies toLowerCase API_KEY env st s query isRetry))) \<noteq> []"
proof -
  let ?levs = "fst (snd (record_search toLowerCase (ledger env) s query rs))"
  have q: "list_all (\<lambda>e. is_store_request e \<or> is_console e) ?levs"
    by (rule record_search_quiet)
  obtain a b c where tr: "fst (fetchMovies toLowerCase API_KEY env st s query isRetry) =
      fetchMovies_start isRetry @ ConsoleLog a # HttpGet b # SetMovieList (shown_movies rs) #
      ?levs @ (if fst (record_search toLowerCase (ledger env) s query rs) = Suspended then []
               else ConsoleLog c # fetchMovies_finally st)"
    by (simp add: fetchMovies_found [OF assms])
  have "movieList (run_events st (fst (fetchMovies toLowerCase API_KEY env st s query isRetry))) =
          shown_movies rs"
    unfolding tr
    by (cases "fst (record_search toLowerCase (ledger env) s query rs) = Suspended")
       (simp_all add: state_after_found [OF q] state_while_recording [OF q])
  with assms(6) show ?thesis by (auto simp: shown_movies_def Let_def)
qed


lemma no_results_not_an_error: "no_results_message query \<noteq> user_message e"
  by (simp add: no_results_message_def user_message_def)

lemma fetchMovies_no_results:
  assumes "truthy API_KEY" and "query \<noteq> [] \<or> initialLoad st"
    and "fetch_result env = Resolved resp" and "ok resp"
    and "json resp = Resolved results" and "results = None \<or> results = Some []"
  shows "fetchMovies toLowerCase API_KEY env st s query isRetry =
     (fetchMovies_start isRetry @
      [ConsoleLog (''Fetching movies: '' @
                   (if query \<noteq> [] then search_endpoint query else discover_endpoint)),
       HttpGet (if query \<noteq> [] then search_endpoint query else discover_endpoint),
       SetErrorMessage (no_results_message query), SetMovieList []] @
      fetchMovies_finally st, s)"
  using assms by (auto simp: fetchMovies_def fetchMovies_try_def Let_def)

text \<open>
  Claim C7. For a 2xx response whose results are missing or empty, the pipeline does not
  enter its error path (nothing is logged as an error): it sets the message to the
  no-results text, which contains the query when there is one and is a different text
  otherwise, and which is none of the messages of the error path; the list of movies is
  set to empty, the busy flags are cleared and the ledger is not touched.
\<close>

theorem no_results_reported:
  assumes "truthy API_KEY" and "query \<noteq> [] \<or> initialLoad st"
    and "fetch_result env = Resolved resp" and "ok resp"
    and "json resp = Resolved results" and "results = None \<or> results = Some []"
  shows
    "errorMessage (run_events st (fst (fetchMovies toLowerCase API_KEY env st s query isRetry))) =
       (if query \<noteq> []
        then ''No movies found for '' @ dquote @ query @ dquote @ ''. Try different keywords.''
        else ''No movies available at the moment.'') \<and>
     ''No movies found for '' @ dquote @ query @ dquote @ ''. Try different keywords.'' \<noteq>
       ''No movies available at the moment.'' \<and>
     movieList (run_events st (fst (fetchMovies toLowerCase API_KEY env st s query isRetry))) = [] \<and>
     \<not> busy (run_events st (fst (fetchMovies toLowerCase API_KEY env st s query isRetry))) \<and>
     (\<forall>e. errorMessage (run_events st (fst (fetchMovies toLowerCase API_KEY env st s query isRetry))) \<noteq>
            user_message e) \<and>
     filter (\<lambda>ev. case ev of ConsoleError m \<Rightarrow> True | _ \<Rightarrow> False)
       (fst (fetchMovies toLowerCase API_KEY env st s query isRetry)) = [] \<and>
     snd (fetchMovies toLowerCase API_KEY env st s query isRetry) = s"
proof -
  obtain a b where tr: "fetchMovies toLowerCase API_KEY env st s query isRetry =
     (fetchMovies_start isRetry @
      [ConsoleLog a, HttpGet b, SetErrorMessage (no_results_message query), SetMovieList []] @
      fetchMovies_finally st, s)"
    by (simp add: fetchMovies_no_results [OF assms])
  have st': "run_events st (fst (fetchMovies toLowerCase API_KEY env st s query isRetry)) =
      st\<lparr>movieList := [], errorMessage := no_results_message query, isLoading := False,
         isRetrying := False, initialLoad := False\<rparr>"
    unfolding tr
    by (cases st) (simp add: run_events_def fetchMovies_start_def fetchMovies_finally_def)
  have quiet: "filter (\<lambda>ev. case ev of ConsoleError m \<Rightarrow> True | _ \<Rightarrow> False)
       (fst (fetchMovies toLowerCase API_KEY env st s query isRetry)) = []"
    unfolding tr by (simp add: fetchMovies_start_def fetchMovies_finally_def)
  have msg: "no_results_message query =
       (if query \<noteq> []
        then ''No movies found for '' @ dquote @ query @ dquote @ ''. Try different keywords.''
        else ''No movies available at the moment.'')"
    by (simp add: no_results_message_def)
  have other: "\<forall>e. no_results_message query \<noteq> user_message e"
    by (simp add: no_results_not_an_error)
  have snd: "snd (fetchMovies toLowerCase API_KEY env st s query isRetry) = s"
    by (simp add: tr)
  show ?thesis
    unfolding st' using msg other quiet snd by (simp add: busy_def)
qed

text \<open>
  The view derives the kind of error it renders from the text of the message, with
  \<open>getErrorType\<close>: the no-results message of an ordinary query is of kind \<open>general\<close>, that
  of a query containing \<open>fetch\<close> is of kind \<open>network\<close>.
\<close>

lemma no_results_message_kind:
  "getErrorType toLowerCase_ascii (no_results_message ''zzzqqqnomatch'') = ''general'' \<and>
   getErrorType toLowerCase_ascii (no_results_message ''fetch'') = ''network''"
  by code_simp











section \<open>Concrete runs of the pipeline\<close>



text \<open>
  Claim C2 on a run: the first load gets two results, one without a poster reference and
  one with an empty one; the filter would remove both, and both are shown.
\<close>

theorem shown_list_never_empty_witness:
  "truthy (Some ''key'') \<and> initialLoad initial_state \<and>
   ok (ok_response (Some [no_poster_movie, blank_poster_movie])) \<and>
   movieList (run_events initial_state
     (fst (fetchMovies toLowerCase_ascii (Some ''key'')
             (provider_answers (Some [no_poster_movie, blank_poster_movie]) no_faults)
             initial_state empty_db [] False))) = [no_poster_movie, blank_poster_movie]"
proof -
  have k: "truthy (Some ''key'')" by (simp add: truthy_def)
  have g: "[] \<noteq> [] \<or> initialLoad initial_state" by (simp add: initial_state_def)
  have f: "fetch_result (provider_answers (Some [no_poster_movie, blank_poster_movie]) no_faults) =
             Resolved (ok_response (Some [no_poster_movie, blank_poster_movie]))"
    by (simp add: provider_answers_def)
  have o: "ok (ok_response (Some [no_poster_movie, blank_poster_movie]))"
    by (simp add: ok_def ok_response_def)
  have j: "json (ok_response (Some [no_poster_movie, blank_poster_movie])) =
             Resolved (Some [no_poster_movie, blank_poster_movie])"
    by (simp add: ok_response_def)
  have n: "[no_poster_movie, blank_poster_movie] \<noteq> []" by simp
  have e: "filter (\<lambda>m. truthy (m_poster_path m)) [no_poster_movie, blank_poster_movie] = []"
    by (simp add: truthy_def no_poster_movie_def blank_poster_movie_def)
  from shown_list_never_empty [where toLowerCase = toLowerCase_ascii and s = empty_db
         and isRetry = False, OF k g f o j n] e k o
  show ?thesis by (simp add: initial_state_def)
qed

text \<open>
  Claim C2 as stated fails on an empty poster reference: it is not null, yet the filter
  removes the movie that carries it when another movie has a poster.
\<close>

theorem non_null_poster_filter_counterexample:
  "m_poster_path blank_poster_movie \<noteq> None \<and>
   filter (\<lambda>m. m_poster_path m \<noteq> None) [blank_poster_movie, example_movie] =
     [blank_poster_movie, example_movie] \<and>
   movieList (run_events initial_state
     (fst (fetchMovies toLowerCase_ascii (Some ''key'')
             (provider_answers (Some [blank_poster_movie, example_movie]) no_faults)
             initial_state empty_db [] False))) = [example_movie] \<and>
   [example_movie] \<noteq> [blank_poster_movie, example_movie]"
  by code_simp

text \<open>
  Claim C3 as stated fails in three ways. When two calls for one term overlap, the later
  write stores a stale value and the counter decreases: from 5, two calls bring it to 7 and
  the write of a call that had read 5 puts it back to 6. When the store does not answer, a
  search that succeeded with a result is not counted: the lookup throws, the update returns
  \<open>null\<close> and the counter of \<open>batman\<close> stays 0. At \<open>2^53\<close> a served call for an existing
  record stores the old counter, not the old counter plus one.
\<close>

theorem counter_decreases_on_overlap_counterexample:
  "counter (batman_db 5) ''batman'' = 5 \<and>
   counter (run_records toLowerCase_ascii (batman_db 5) [batman_call, batman_call])
     ''batman'' = 7 \<and>
   counter (run_overlapped toLowerCase_ascii (batman_db 5) batman_call
              [batman_call, batman_call]) ''batman'' = 6 \<and>
   movieList (run_events initial_state
     (fst (fetchMovies toLowerCase_ascii (Some ''key'')
             (provider_answers (Some [example_movie]) ledger_down)
             initial_state empty_db ''batman'' False))) = [example_movie] \<and>
   errorMessage (run_events initial_state
     (fst (fetchMovies toLowerCase_ascii (Some ''key'')
             (provider_answers (Some [example_movie]) ledger_down)
             initial_state empty_db ''batman'' False))) = [] \<and>
   counter (snd (fetchMovies toLowerCase_ascii (Some ''key'')
                   (provider_answers (Some [example_movie]) ledger_down)
                   initial_state empty_db ''batman'' False)) ''batman'' = 0 \<and>
   counter (batman_db 9007199254740992) ''batman'' = 9007199254740992 \<and>
   counter (run_records toLowerCase_ascii (batman_db 9007199254740992) [batman_call])
     ''batman'' = 9007199254740992"
proof -
  have a: "counter (batman_db 5) ''batman'' = 5 \<and>
   counter (run_records toLowerCase_ascii (batman_db 5) [batman_call, batman_call])
     ''batman'' = 7 \<and>
   counter (run_overlapped toLowerCase_ascii (batman_db 5) batman_call
              [batman_call, batman_call]) ''batman'' = 6"
    by code_simp
  have b: "movieList (run_events initial_state
     (fst (fetchMovies toLowerCase_ascii (Some ''key'')
             (provider_answers (Some [example_movie]) ledger_down)
             initial_state empty_db ''batman'' False))) = [example_movie] \<and>
   errorMessage (run_events initial_state
     (fst (fetchMovies toLowerCase_ascii (Some ''key'')
             (provider_answers (Some [example_movie]) ledger_down)
             initial_state empty_db ''batman'' False))) = [] \<and>
   counter (snd (fetchMovies toLowerCase_ascii (Some ''key'')
                   (provider_answers (Some [example_movie]) ledger_down)
                   initial_state empty_db ''batman'' False)) ''batman'' = 0"
    by code_simp
  have c: "counter (batman_db 9007199254740992) ''batman'' = 9007199254740992 \<and>
   counter (run_records toLowerCase_ascii (batman_db 9007199254740992) [batman_call])
     ''batman'' = 9007199254740992"
    by (simp add: counter_batman_db batman_call_def batman_served js_add_2_53)
  from a b c show ?thesis by blast
qed

text \<open>
  Claim C7 on a run: a search for \<open>zzzqqqnomatch\<close> answered 200 with an empty results list.
\<close>

theorem no_results_reported_witness:
  "truthy (Some ''key'') \<and> ok (ok_response (Some [])) \<and>
   errorMessage (run_events initial_state
     (fst (fetchMovies toLowerCase_ascii (Some ''key'') (provider_answers (Some []) no_faults)
             initial_state empty_db ''zzzqqqnomatch'' False))) =
     ''No movies found for '' @ dquote @ ''zzzqqqnomatch'' @ dquote @ ''. Try different keywords.'' \<and>
   movieList (run_events initial_state
     (fst (fetchMovies toLowerCase_ascii (Some ''key'') (provider_answers (Some []) no_faults)
             initial_state empty_db ''zzzqqqnomatch'' False))) = []"
proof -
  have k: "truthy (Some ''key'')" by (simp add: truthy_def)
  have g: "''zzzqqqnomatch'' \<noteq> [] \<or> initialLoad initial_state" by simp
  have f: "fetch_result (provider_answers (Some []) no_faults) = Resolved (ok_response (Some []))"
    by (simp add: provider_answers_def)
  have o: "ok (ok_response (Some []))" by (simp add: ok_def ok_response_def)
  have j: "json (ok_response (Some [])) = Resolved (Some [])" by (simp add: ok_response_def)
  have r: "(Some [] :: movie list option) = None \<or> (Some [] :: movie list option) = Some []"
    by simp
  from no_results_reported [where toLowerCase = toLowerCase_ascii and s = empty_db
         and isRetry = False, OF k g f o j r] k o
  show ?thesis by simp
qed




end
